theory Spec2Isabelle
  imports Complex_Main "HOL-Library.AList" "HOL-Library.Log_Nat" "HOL-Library.Signed_Division"
begin

section \<open>Data model of package jobs\<close>

text \<open>
  The Kubernetes API types that the builder only copies around (it never looks inside
  them) are represented by a token each. Go pointers are options (\<open>None\<close> is nil),
  slices are lists (nil and empty both have length 0, which is all the code asks), Go
  maps are association lists with pairwise distinct keys under an option (\<open>None\<close> is
  the nil map), read with \<open>map_of\<close> and written with \<open>AList.update\<close>.
\<close>

datatype Affinity = Affinity string
datatype Toleration = Toleration string
datatype SecurityContext = SecurityContext string
datatype PodSecurityContext = PodSecurityContext string
datatype Volume = Volume string
datatype VolumeMount = VolumeMount string
datatype LocalObjectReference = LocalObjectReference string
datatype ResourceRequirements = ResourceRequirements string

type_synonym gomap = "(string \<times> string) list option"

record Container =
  ContainerName :: string
  ImageName :: string
  Args :: "string list"
  ContainerSecurityContext :: "SecurityContext option"
  Resources :: ResourceRequirements
  VolumeMounts :: "VolumeMount list"

text \<open>\<open>PodSpec\<close> is what the source reaches as \<open>job.Spec.Template.Spec\<close>.\<close>

record PodSpec =
  Containers :: "Container list"
  NodeSelector :: gomap
  ServiceAccountName :: string
  PodAffinity :: "Affinity option"
  Tolerations :: "Toleration list"
  PriorityClassName :: string
  PodSecurityContextOf :: "PodSecurityContext option"
  Volumes :: "Volume list"
  ImagePullSecrets :: "LocalObjectReference list"

record JobSpec =
  ActiveDeadlineSeconds :: "int option"
  Template :: PodSpec

record Job =
  Namespace :: string
  Name :: string
  Labels :: gomap
  Annotations :: gomap
  Spec :: JobSpec

text \<open>
  Errors are values. \<open>NotFound\<close> is an API status error whose reason is not-found,
  \<open>StatusError\<close> any other API status error, \<open>Wrapped msg e\<close> is
  \<open>fmt.Errorf("msg: %w", e)\<close>. A function of the source returns a value, returns an
  error, or panics (an index out of range on \<open>Containers[0]\<close>); a panic is not an
  error value and no \<open>if err != nil\<close> sees it.
\<close>

datatype error =
    NotFound string
  | StatusError string
  | DecodeError string
  | RunTimeoutError
  | OtherError string
  | Wrapped string error

fun IsNotFound :: "error \<Rightarrow> bool" where
  "IsNotFound (NotFound _) = True"
| "IsNotFound (Wrapped _ e) = IsNotFound e"
| "IsNotFound _ = False"

datatype 'a result = Return 'a | Failure error | Panic string

fun andThen :: "'a result \<Rightarrow> ('a \<Rightarrow> 'b result) \<Rightarrow> 'b result" where
  "andThen (Return x) f = f x"
| "andThen (Failure e) f = Failure e"
| "andThen (Panic s) f = Panic s"

section \<open>builder.go\<close>

record JobBuilder =
  b_template :: string
  b_nodeName :: string
  b_namespace :: string
  b_imageRef :: string
  b_serviceAccount :: string
  b_name :: string
  b_labels :: gomap
  b_podSecurityContext :: "PodSecurityContext option"
  b_securityContext :: "SecurityContext option"
  b_annotations :: gomap
  b_affinity :: "Affinity option"
  b_tolerations :: "Toleration list"
  b_priorityClassName :: string
  b_volumes :: "Volume list"
  b_volumeMounts :: "VolumeMount list"
  b_imagePullSecrets :: "LocalObjectReference list"
  b_resourceRequirements :: "ResourceRequirements option"
  b_timeout :: int
  b_nodeConfig :: bool
  b_useNodeSelector :: bool

text \<open>\<open>&JobBuilder{}\<close>: every field at its zero value.\<close>

definition zeroJobBuilder :: JobBuilder where
  "zeroJobBuilder =
     \<lparr> b_template = [], b_nodeName = [], b_namespace = [], b_imageRef = [],
       b_serviceAccount = [], b_name = [], b_labels = None, b_podSecurityContext = None,
       b_securityContext = None, b_annotations = None, b_affinity = None,
       b_tolerations = [], b_priorityClassName = [], b_volumes = [], b_volumeMounts = [],
       b_imagePullSecrets = [], b_resourceRequirements = None, b_timeout = 0,
       b_nodeConfig = False, b_useNodeSelector = False \<rparr>"

type_synonym JobOption = "JobBuilder \<Rightarrow> JobBuilder"

definition WithTemplate :: "string \<Rightarrow> JobOption" where
  "WithTemplate template j = j\<lparr>b_template := template\<rparr>"

definition WithNodeName :: "string \<Rightarrow> JobOption" where
  "WithNodeName nodeName j = j\<lparr>b_nodeName := nodeName\<rparr>"

definition WithJobName :: "string \<Rightarrow> JobOption" where
  "WithJobName name j = j\<lparr>b_name := name\<rparr>"

definition WithNamespace :: "string \<Rightarrow> JobOption" where
  "WithNamespace namespace j = j\<lparr>b_namespace := namespace\<rparr>"

definition WithJobServiceAccount :: "string \<Rightarrow> JobOption" where
  "WithJobServiceAccount sa j = j\<lparr>b_serviceAccount := sa\<rparr>"

definition WithLabels :: "gomap \<Rightarrow> JobOption" where
  "WithLabels labels j = j\<lparr>b_labels := labels\<rparr>"

definition WithAnnotation :: "gomap \<Rightarrow> JobOption" where
  "WithAnnotation annotations j = j\<lparr>b_annotations := annotations\<rparr>"

definition WithAffinity :: "Affinity option \<Rightarrow> JobOption" where
  "WithAffinity affinity j = j\<lparr>b_affinity := affinity\<rparr>"

definition WithTolerations :: "Toleration list \<Rightarrow> JobOption" where
  "WithTolerations tolerations j = j\<lparr>b_tolerations := tolerations\<rparr>"

definition WithPriorityClassName :: "string \<Rightarrow> JobOption" where
  "WithPriorityClassName priorityClassName j = j\<lparr>b_priorityClassName := priorityClassName\<rparr>"

definition WithNodeCollectorImageRef :: "string \<Rightarrow> JobOption" where
  "WithNodeCollectorImageRef imageRef j = j\<lparr>b_imageRef := imageRef\<rparr>"

definition withSecurityContext :: "SecurityContext option \<Rightarrow> JobOption" where
  "withSecurityContext securityContext j = j\<lparr>b_securityContext := securityContext\<rparr>"

definition withPodSecurityContext :: "PodSecurityContext option \<Rightarrow> JobOption" where
  "withPodSecurityContext podSecurityContext j = j\<lparr>b_podSecurityContext := podSecurityContext\<rparr>"

definition WithPodVolumes :: "Volume list \<Rightarrow> JobOption" where
  "WithPodVolumes volumes j = j\<lparr>b_volumes := volumes\<rparr>"

definition WithContainerVolumeMounts :: "VolumeMount list \<Rightarrow> JobOption" where
  "WithContainerVolumeMounts volumeMounts j = j\<lparr>b_volumeMounts := volumeMounts\<rparr>"

definition WithImagePullSecrets :: "LocalObjectReference list \<Rightarrow> JobOption" where
  "WithImagePullSecrets imagePullSecrets j = j\<lparr>b_imagePullSecrets := imagePullSecrets\<rparr>"

definition WithResourceRequirements :: "ResourceRequirements option \<Rightarrow> JobOption" where
  "WithResourceRequirements rr j = j\<lparr>b_resourceRequirements := rr\<rparr>"

definition WithJobTimeout :: "int \<Rightarrow> JobOption" where
  "WithJobTimeout timeout j = j\<lparr>b_timeout := timeout\<rparr>"

definition WithNodeConfiguration :: "bool \<Rightarrow> JobOption" where
  "WithNodeConfiguration nodeConfig j = j\<lparr>b_nodeConfig := nodeConfig\<rparr>"

definition WithUseNodeSelectorParam :: "bool \<Rightarrow> JobOption" where
  "WithUseNodeSelectorParam useNodeSelector j = j\<lparr>b_useNodeSelector := useNodeSelector\<rparr>"

text \<open>\<open>GetJob\<close>: the options are applied in order to a zero builder, then \<open>build\<close> runs.\<close>

definition applyOptions :: "JobOption list \<Rightarrow> JobBuilder" where
  "applyOptions opts = fold (\<lambda>opt jb. opt jb) opts zeroJobBuilder"

subsection \<open>Declarations of other files and of libraries\<close>

text \<open>
  \<open>getTemplate\<close>, \<open>ComputeHash\<close>, \<open>GetAuth\<close> and the three RBAC object names are
  declared in other files of the package; \<open>yaml.Unmarshal\<close> is a library. They are
  parameters, collected in one record. \<open>yamlUnmarshal\<close> returns the decoded job or the
  decoding error.
\<close>

datatype ObjectRef = ObjectRef (Kind: string) (RefName: string) (RefNamespace: string)

datatype ClusterRole = ClusterRole string
datatype ClusterRoleBinding = ClusterRoleBinding string
datatype ServiceAccount = ServiceAccount string

record Env =
  getTemplate :: "string \<Rightarrow> string"
  yamlUnmarshal :: "string \<Rightarrow> error + Job"
  ComputeHash :: "ObjectRef \<Rightarrow> string"
  GetAuth :: "string \<Rightarrow> error + (ClusterRole \<times> ClusterRoleBinding \<times> ServiceAccount)"
  clusterRole :: string
  roleBinding :: string
  serviceAccount :: string

subsection \<open>time.Duration.Seconds and the conversion to int64\<close>

text \<open>
  \<open>time.Duration\<close> is an int64 count of nanoseconds. The library computes
  \<^verbatim>\<open>
  func (d Duration) Seconds() float64 {
      sec := d / Second
      nsec := d % Second
      return float64(sec) + float64(nsec)/1e9
  }
  \<close>
  with Go's truncating \<open>/\<close> and \<open>%\<close>, and \<open>int64(f)\<close> discards the fraction of \<open>f\<close>.
  A finite float64 is a rational number, and every IEEE-754 operation returns the exact
  result rounded to the nearest float64, ties to the even significand. \<open>float64\<close>
  below is that rounding on the rationals, for zero and for magnitudes in the normal
  range (53-bit significands); every value that arises from a positive int64 duration,
  the only ones \<open>build\<close> converts, is zero or lies between \<open>10\<^sup>-\<^sup>9\<close> and
  \<open>2\<^sup>3\<^sup>4\<close>.
\<close>

definition pow2 :: "int \<Rightarrow> rat" where
  "pow2 e = (if 0 \<le> e then 2 ^ nat e else 1 / 2 ^ nat (- e))"

text \<open>The binary exponent of a positive rational: \<open>pow2 e \<le> x < pow2 (e + 1)\<close>.\<close>

definition exponent :: "rat \<Rightarrow> int" where
  "exponent x =
     (let d = bitlen (fst (quotient_of x)) - bitlen (snd (quotient_of x))
      in if pow2 d \<le> x then d else d - 1)"

definition roundHalfEven :: "rat \<Rightarrow> int" where
  "roundHalfEven x =
     (let f = \<lfloor>x\<rfloor>; r = x - of_int f
      in if r < 1 / 2 then f
         else if 1 / 2 < r then f + 1
         else if even f then f else f + 1)"

definition float64 :: "rat \<Rightarrow> rat" where
  "float64 x =
     (if x = 0 then 0
      else let ulp = pow2 (exponent \<bar>x\<bar> - 52)
           in of_int (roundHalfEven (x / ulp)) * ulp)"

definition Second :: int where
  "Second = 1000000000"

definition Seconds :: "int \<Rightarrow> rat" where
  "Seconds d =
     (let sec = d sdiv Second; nsec = d smod Second
      in float64 (float64 (of_int sec) + float64 (float64 (of_int nsec) / float64 1000000000)))"

definition int64_of_float64 :: "rat \<Rightarrow> int" where
  "int64_of_float64 f = (if 0 \<le> f then \<lfloor>f\<rfloor> else \<lceil>f\<rceil>)"

subsection \<open>JobBuilder.build\<close>

definition podOf :: "Job \<Rightarrow> PodSpec" where
  "podOf job = Template (Spec job)"

definition updPod :: "(PodSpec \<Rightarrow> PodSpec) \<Rightarrow> Job \<Rightarrow> Job" where
  "updPod f job = job\<lparr>Spec := (Spec job)\<lparr>Template := f (Template (Spec job))\<rparr>\<rparr>"

text \<open>
  An assignment to a field of \<open>job.Spec.Template.Spec.Containers[0]\<close>: the index
  expression panics when the slice is empty, otherwise element 0 is updated in place.
\<close>

definition upd0 :: "(Container \<Rightarrow> Container) \<Rightarrow> Job \<Rightarrow> Job" where
  "upd0 f job = updPod (\<lambda>p. p\<lparr>Containers := (Containers p)[0 := f (Containers p ! 0)]\<rparr>) job"

definition setContainer0 :: "(Container \<Rightarrow> Container) \<Rightarrow> Job \<Rightarrow> Job result" where
  "setContainer0 f job =
     (if 0 < length (Containers (podOf job)) then Return (upd0 f job)
      else Panic ''index out of range [0] with length 0'')"

text \<open>
  A write \<open>m[key] = val\<close> after \<open>if m == nil { m = make(map[string]string) }\<close>, and the
  entries a \<open>range\<close> over a map visits (none for the nil map). Go leaves the order
  of the visits open; the keys being distinct, the map the loops of \<open>build\<close> end with
  is the same in every order (\<open>mergeInto_order\<close> below).
\<close>

definition mapAssign :: "gomap \<Rightarrow> string \<Rightarrow> string \<Rightarrow> gomap" where
  "mapAssign m key val = Some (AList.update key val (case m of None \<Rightarrow> [] | Some al \<Rightarrow> al))"

definition entries :: "gomap \<Rightarrow> (string \<times> string) list" where
  "entries m = (case m of None \<Rightarrow> [] | Some al \<Rightarrow> al)"

definition lookup :: "gomap \<Rightarrow> string \<Rightarrow> string option" where
  "lookup m key = map_of (entries m) key"

definition LabelHostname :: string where
  "LabelHostname = ''kubernetes.io/hostname''"

text \<open>The statements of \<open>build\<close>, in the order of the source (lines 169 to 232).\<close>

definition setNamespace :: "JobBuilder \<Rightarrow> Job \<Rightarrow> Job" where
  "setNamespace b job = job\<lparr>Namespace := b_namespace b\<rparr>"

definition setName :: "JobBuilder \<Rightarrow> Job \<Rightarrow> Job" where
  "setName b job = (if 0 < length (b_name b) then job\<lparr>Name := b_name b\<rparr> else job)"

definition setImage :: "JobBuilder \<Rightarrow> Job \<Rightarrow> Job result" where
  "setImage b job =
     (if 0 < length (b_imageRef b)
      then setContainer0 (\<lambda>c. c\<lparr>ImageName := b_imageRef b\<rparr>) job
      else Return job)"

definition appendNodeArg :: "JobBuilder \<Rightarrow> Job \<Rightarrow> Job result" where
  "appendNodeArg b job =
     (if b_nodeConfig b
      then setContainer0 (\<lambda>c. c\<lparr>Args := Args c @ [''--node'', b_nodeName b]\<rparr>) job
      else Return job)"

definition setNodeSelector :: "JobBuilder \<Rightarrow> Job \<Rightarrow> Job" where
  "setNodeSelector b job =
     (if b_useNodeSelector b
      then updPod (\<lambda>p. p\<lparr>NodeSelector := Some [(LabelHostname, b_nodeName b)]\<rparr>) job
      else job)"

definition appendLabels :: "JobBuilder \<Rightarrow> Job \<Rightarrow> Job" where
  "appendLabels b job =
     fold (\<lambda>(key, val) job. job\<lparr>Labels := mapAssign (Labels job) key val\<rparr>)
       (entries (b_labels b)) job"

definition appendAnnotations :: "JobBuilder \<Rightarrow> Job \<Rightarrow> Job" where
  "appendAnnotations b job =
     fold (\<lambda>(key, val) job. job\<lparr>Annotations := mapAssign (Annotations job) key val\<rparr>)
       (entries (b_annotations b)) job"

definition setServiceAccount :: "JobBuilder \<Rightarrow> Job \<Rightarrow> Job" where
  "setServiceAccount b job =
     (if 0 < length (b_serviceAccount b)
      then updPod (\<lambda>p. p\<lparr>ServiceAccountName := b_serviceAccount b\<rparr>) job
      else job)"

definition setAffinity :: "JobBuilder \<Rightarrow> Job \<Rightarrow> Job" where
  "setAffinity b job =
     (if b_affinity b \<noteq> None then updPod (\<lambda>p. p\<lparr>PodAffinity := b_affinity b\<rparr>) job else job)"

definition setTolerations :: "JobBuilder \<Rightarrow> Job \<Rightarrow> Job" where
  "setTolerations b job =
     (if 0 < length (b_tolerations b)
      then updPod (\<lambda>p. p\<lparr>Tolerations := b_tolerations b\<rparr>) job
      else job)"

definition setPriorityClassName :: "JobBuilder \<Rightarrow> Job \<Rightarrow> Job" where
  "setPriorityClassName b job =
     (if b_priorityClassName b \<noteq> []
      then updPod (\<lambda>p. p\<lparr>PriorityClassName := b_priorityClassName b\<rparr>) job
      else job)"

definition setPodSecurityContext :: "JobBuilder \<Rightarrow> Job \<Rightarrow> Job" where
  "setPodSecurityContext b job =
     (if b_podSecurityContext b \<noteq> None
      then updPod (\<lambda>p. p\<lparr>PodSecurityContextOf := b_podSecurityContext b\<rparr>) job
      else job)"

definition setDeadline :: "JobBuilder \<Rightarrow> Job \<Rightarrow> Job" where
  "setDeadline b job =
     (if 0 < b_timeout b
      then job\<lparr>Spec := (Spec job)
             \<lparr>ActiveDeadlineSeconds := Some (int64_of_float64 (Seconds (b_timeout b)))\<rparr>\<rparr>
      else job)"

definition setSecurityContext :: "JobBuilder \<Rightarrow> Job \<Rightarrow> Job result" where
  "setSecurityContext b job =
     (if b_securityContext b \<noteq> None
      then setContainer0 (\<lambda>c. c\<lparr>ContainerSecurityContext := b_securityContext b\<rparr>) job
      else Return job)"

definition setVolumes :: "JobBuilder \<Rightarrow> Job \<Rightarrow> Job" where
  "setVolumes b job =
     (if 0 < length (b_volumes b) then updPod (\<lambda>p. p\<lparr>Volumes := b_volumes b\<rparr>) job else job)"

definition setImagePullSecrets :: "JobBuilder \<Rightarrow> Job \<Rightarrow> Job" where
  "setImagePullSecrets b job =
     (if 0 < length (b_imagePullSecrets b)
      then updPod (\<lambda>p. p\<lparr>ImagePullSecrets := b_imagePullSecrets b\<rparr>) job
      else job)"

text \<open>
  Lines 225 to 229:
  \<^verbatim>\<open>
  for _, c := range job.Spec.Template.Spec.Containers {
      c.Resources = *b.resourceRequirements
  }
  \<close>
  The slice holds \<open>Container\<close> values, not pointers, so the loop variable \<open>c\<close> is a
  copy of the element: the body assigns to the copy, which is dropped at the end of
  each iteration, and the job is what it was.
\<close>

definition setResources :: "JobBuilder \<Rightarrow> Job \<Rightarrow> Job" where
  "setResources b job =
     (case b_resourceRequirements b of
        None \<Rightarrow> job
      | Some rr \<Rightarrow>
          fold (\<lambda>c job. let c' = c\<lparr>Resources := rr\<rparr> in job) (Containers (podOf job)) job)"

definition setVolumeMounts :: "JobBuilder \<Rightarrow> Job \<Rightarrow> Job result" where
  "setVolumeMounts b job =
     (if 0 < length (b_volumeMounts b)
      then setContainer0 (\<lambda>c. c\<lparr>VolumeMounts := b_volumeMounts b\<rparr>) job
      else Return job)"

definition build :: "Env \<Rightarrow> JobBuilder \<Rightarrow> Job result" where
  "build env b =
     (case yamlUnmarshal env (getTemplate env (b_template b)) of
        Inl err \<Rightarrow> Failure err
      | Inr job \<Rightarrow>
          andThen (setImage b (setName b (setNamespace b job))) (\<lambda>job.
          andThen (appendNodeArg b job) (\<lambda>job.
          andThen (setSecurityContext b (setDeadline b (setPodSecurityContext b
                    (setPriorityClassName b (setTolerations b (setAffinity b
                    (setServiceAccount b (appendAnnotations b (appendLabels b
                    (setNodeSelector b job)))))))))) (\<lambda>job.
          setVolumeMounts b (setResources b (setImagePullSecrets b (setVolumes b job)))))))"

definition GetJob :: "Env \<Rightarrow> JobOption list \<Rightarrow> Job result" where
  "GetJob env opts = build env (applyOptions opts)"

section \<open>collector.go\<close>

definition NodeCollectorName :: string where
  "NodeCollectorName = ''node-collector''"

text \<open>
  The fields of \<open>jobCollector\<close> but \<open>cluster\<close> and \<open>logsReader\<close>, which are the
  outside world below.
\<close>

record jobCollector =
  jc_timeout :: int
  jc_labels :: gomap
  jc_annotation :: gomap
  jc_templateName :: string
  jc_namespace :: string
  jc_priorityClassName :: string
  jc_name :: string
  jc_serviceAccount :: string
  jc_podSecurityContext :: "PodSecurityContext option"
  jc_securityContext :: "SecurityContext option"
  jc_imageRef :: string
  jc_affinity :: "Affinity option"
  jc_tolerations :: "Toleration list"
  jc_volumes :: "Volume list"
  jc_volumeMounts :: "VolumeMount list"
  jc_imagePullSecrets :: "LocalObjectReference list"
  jc_collectorTimeout :: int
  jc_resourceRequirements :: "ResourceRequirements option"
  jc_nodeConfig :: bool
  jc_useNodeSelector :: bool

subsection \<open>The cluster\<close>

text \<open>
  The cluster API, the completion runner (\<open>New(WithTimeout(t)).Run(ctx,
  NewRunnableJob(clientset, job))\<close>) and the logs reader are collaborators: each
  operation takes the state \<open>'w\<close> of the outside world and returns its answer with the
  new state. Nothing is assumed about the answers. Results the source discards (the
  object returned by a Get or a Create) are left out.
\<close>

datatype ReadCloser = ReadCloser string

record 'w Cluster =
  NamespacesGet :: "string \<Rightarrow> 'w \<Rightarrow> error option \<times> 'w"
  NamespacesCreate :: "string \<Rightarrow> 'w \<Rightarrow> error option \<times> 'w"
  NamespacesDelete :: "string \<Rightarrow> 'w \<Rightarrow> error option \<times> 'w"
  ClusterRolesCreate :: "ClusterRole \<Rightarrow> 'w \<Rightarrow> error option \<times> 'w"
  ServiceAccountsCreate :: "string \<Rightarrow> ServiceAccount \<Rightarrow> 'w \<Rightarrow> error option \<times> 'w"
  ClusterRoleBindingsCreate :: "ClusterRoleBinding \<Rightarrow> 'w \<Rightarrow> error option \<times> 'w"
  ClusterRoleBindingsDelete :: "string \<Rightarrow> 'w \<Rightarrow> error option \<times> 'w"
  ClusterRolesDelete :: "string \<Rightarrow> 'w \<Rightarrow> error option \<times> 'w"
  ServiceAccountsDelete :: "string \<Rightarrow> string \<Rightarrow> 'w \<Rightarrow> error option \<times> 'w"
  JobsCreate :: "string \<Rightarrow> Job \<Rightarrow> 'w \<Rightarrow> (error + Job) \<times> 'w"
  JobsDelete :: "string \<Rightarrow> string \<Rightarrow> 'w \<Rightarrow> error option \<times> 'w"
  RunnerRun :: "int \<Rightarrow> Job \<Rightarrow> 'w \<Rightarrow> error option \<times> 'w"
  GetLogsByJobAndContainerName :: "Job \<Rightarrow> string \<Rightarrow> 'w \<Rightarrow> (error + ReadCloser) \<times> 'w"
  ReadAll :: "ReadCloser \<Rightarrow> 'w \<Rightarrow> (error + string) \<times> 'w"
  StreamClose :: "ReadCloser \<Rightarrow> 'w \<Rightarrow> error option \<times> 'w"

text \<open>
  Every call on a collaborator is logged with the error it returned (\<open>None\<close> when it
  succeeded), so that a property can speak of the calls an invocation issued.
\<close>

datatype call =
    CallNamespacesGet string
  | CallNamespacesCreate string
  | CallNamespacesDelete string
  | CallClusterRolesCreate ClusterRole
  | CallServiceAccountsCreate string ServiceAccount
  | CallClusterRoleBindingsCreate ClusterRoleBinding
  | CallClusterRoleBindingsDelete string
  | CallClusterRolesDelete string
  | CallServiceAccountsDelete string string
  | CallJobsCreate string Job
  | CallJobsDelete string string
  | CallRun int Job
  | CallGetLogs Job string
  | CallReadAll ReadCloser
  | CallClose ReadCloser

type_synonym event = "call \<times> error option"

type_synonym ('w, 'a) action = "'w \<Rightarrow> 'a \<times> 'w \<times> event list"

definition errOf :: "error + 'a \<Rightarrow> error option" where
  "errOf r = (case r of Inl e \<Rightarrow> Some e | Inr _ \<Rightarrow> None)"

definition invoke :: "call \<Rightarrow> ('w \<Rightarrow> error option \<times> 'w) \<Rightarrow> ('w, error option) action" where
  "invoke c op w = (case op w of (r, w') \<Rightarrow> (r, w', [(c, r)]))"

definition invokeR :: "call \<Rightarrow> ('w \<Rightarrow> (error + 'a) \<times> 'w) \<Rightarrow> ('w, error + 'a) action" where
  "invokeR c op w = (case op w of (r, w') \<Rightarrow> (r, w', [(c, errOf r)]))"

definition finish :: "'a \<Rightarrow> ('w, 'a) action" where
  "finish a w = (a, w, [])"

definition seq :: "('w, 'a) action \<Rightarrow> ('a \<Rightarrow> ('w, 'b) action) \<Rightarrow> ('w, 'b) action" where
  "seq m f w =
     (case m w of (a, w1, t1) \<Rightarrow> (case f a w1 of (b, w2, t2) \<Rightarrow> (b, w2, t1 @ t2)))"

definition outcome :: "'a \<times> 'w \<times> event list \<Rightarrow> 'a" where
  "outcome r = fst r"

definition events :: "'a \<times> 'w \<times> event list \<Rightarrow> event list" where
  "events r = snd (snd r)"

subsection \<open>ApplyAndCollect\<close>

text \<open>Lines 217 to 226: the namespace lookup. The result is the error the function returns with, if any.\<close>

definition ensureNamespace :: "'w Cluster \<Rightarrow> jobCollector \<Rightarrow> ('w, error option) action" where
  "ensureNamespace cl jb =
     seq (invoke (CallNamespacesGet (jc_namespace jb)) (NamespacesGet cl (jc_namespace jb)))
       (\<lambda>err. case err of
          None \<Rightarrow> finish None
        | Some e \<Rightarrow>
            if IsNotFound e
            then invoke (CallNamespacesCreate (jc_namespace jb))
                   (NamespacesCreate cl (jc_namespace jb))
            else finish None)"

text \<open>Lines 227 to 244: the RBAC objects, created in node-configuration mode.\<close>

definition createRBAC :: "Env \<Rightarrow> 'w Cluster \<Rightarrow> jobCollector \<Rightarrow> ('w, error option) action" where
  "createRBAC env cl jb =
     (if jc_nodeConfig jb then
        (case GetAuth env (jc_namespace jb) of
           Inl err \<Rightarrow> finish (Some (Wrapped ''running node-collector job'' err))
         | Inr (cr, rb, sa) \<Rightarrow>
             seq (invoke (CallClusterRolesCreate cr) (ClusterRolesCreate cl cr))
               (\<lambda>err. case err of
                  Some e \<Rightarrow> finish (Some (Wrapped ''creating cluster role'' e))
                | None \<Rightarrow>
             seq (invoke (CallServiceAccountsCreate (jc_namespace jb) sa)
                    (ServiceAccountsCreate cl (jc_namespace jb) sa))
               (\<lambda>err. case err of
                  Some e \<Rightarrow> finish (Some (Wrapped ''creating service account'' e))
                | None \<Rightarrow>
             seq (invoke (CallClusterRoleBindingsCreate rb) (ClusterRoleBindingsCreate cl rb))
               (\<lambda>err. case err of
                  Some e \<Rightarrow> finish (Some (Wrapped ''creating role binding'' e))
                | None \<Rightarrow> finish None))))
      else finish None)"

text \<open>Lines 246 to 274: the options handed to \<open>GetJob\<close>.\<close>

definition collectJobOptions :: "Env \<Rightarrow> jobCollector \<Rightarrow> string \<Rightarrow> JobOption list" where
  "collectJobOptions env jb nodeName =
     [ WithTemplate (jc_templateName jb),
       WithNamespace (jc_namespace jb),
       WithNodeName nodeName,
       WithAnnotation (jc_annotation jb),
       WithLabels (jc_labels jb),
       WithJobTimeout (jc_collectorTimeout jb),
       withSecurityContext (jc_securityContext jb),
       withPodSecurityContext (jc_podSecurityContext jb),
       WithNodeCollectorImageRef (jc_imageRef jb),
       WithAffinity (jc_affinity jb),
       WithTolerations (jc_tolerations jb),
       WithPodVolumes (jc_volumes jb),
       WithImagePullSecrets (jc_imagePullSecrets jb),
       WithContainerVolumeMounts (jc_volumeMounts jb),
       WithNodeConfiguration (jc_nodeConfig jb),
       WithPriorityClassName (jc_priorityClassName jb),
       WithResourceRequirements (jc_resourceRequirements jb),
       WithUseNodeSelectorParam True,
       WithJobName (jc_templateName jb @ ''-'' @
         ComputeHash env (ObjectRef ''Node-Info'' nodeName (jc_namespace jb))) ]
     @ (if jc_nodeConfig jb then [WithJobServiceAccount (serviceAccount env)] else [])"

text \<open>Lines 284 to 300: the deferred deletions; their errors are dropped.\<close>

definition cleanup :: "Env \<Rightarrow> 'w Cluster \<Rightarrow> jobCollector \<Rightarrow> Job \<Rightarrow> ('w, unit) action" where
  "cleanup env cl jb job =
     seq (if jc_nodeConfig jb then
            seq (invoke (CallClusterRoleBindingsDelete (roleBinding env))
                   (ClusterRoleBindingsDelete cl (roleBinding env))) (\<lambda>_.
            seq (invoke (CallClusterRolesDelete (clusterRole env))
                   (ClusterRolesDelete cl (clusterRole env))) (\<lambda>_.
            seq (invoke (CallServiceAccountsDelete (Namespace job) (serviceAccount env))
                   (ServiceAccountsDelete cl (Namespace job) (serviceAccount env))) (\<lambda>_.
            finish ())))
          else finish ())
       (\<lambda>_. seq (invoke (CallJobsDelete (Namespace job) (Name job))
                   (JobsDelete cl (Namespace job) (Name job))) (\<lambda>_. finish ()))"

text \<open>
  Lines 302 to 313: the logs are fetched and read; the stream, once obtained, is closed
  by a deferred call on either way out.
\<close>

definition readLogs :: "'w Cluster \<Rightarrow> Job \<Rightarrow> ('w, string result) action" where
  "readLogs cl job =
     seq (invokeR (CallGetLogs job NodeCollectorName)
            (GetLogsByJobAndContainerName cl job NodeCollectorName))
       (\<lambda>r. case r of
          Inl err \<Rightarrow> finish (Failure (Wrapped ''getting logs'' err))
        | Inr logsStream \<Rightarrow>
            seq (invokeR (CallReadAll logsStream) (ReadAll cl logsStream)) (\<lambda>r.
            seq (invoke (CallClose logsStream) (StreamClose cl logsStream)) (\<lambda>_.
            finish (case r of
                      Inl err \<Rightarrow> Failure (Wrapped ''reading logs'' err)
                    | Inr output \<Rightarrow> Return output))))"

text \<open>
  Lines 280 to 313: the run; on success the deletions are deferred, so they follow the
  reading of the logs (and the deferred close of the stream) whatever its result.
\<close>

definition runAndCollect ::
  "Env \<Rightarrow> 'w Cluster \<Rightarrow> jobCollector \<Rightarrow> Job \<Rightarrow> ('w, string result) action" where
  "runAndCollect env cl jb job =
     seq (invoke (CallRun (jc_timeout jb) job) (RunnerRun cl (jc_timeout jb) job))
       (\<lambda>err. case err of
          Some e \<Rightarrow> finish (Failure (Wrapped ''running node-collector job'' e))
        | None \<Rightarrow> seq (readLogs cl job) (\<lambda>r. seq (cleanup env cl jb job) (\<lambda>_. finish r)))"

text \<open>Lines 227 to 313: what follows the namespace lookup.\<close>

definition provisionAndRun ::
  "Env \<Rightarrow> 'w Cluster \<Rightarrow> jobCollector \<Rightarrow> string \<Rightarrow> ('w, string result) action" where
  "provisionAndRun env cl jb nodeName =
     seq (createRBAC env cl jb)
       (\<lambda>err. case err of
          Some e \<Rightarrow> finish (Failure e)
        | None \<Rightarrow>
            (case GetJob env (collectJobOptions env jb nodeName) of
               Panic p \<Rightarrow> finish (Panic p)
             | Failure e \<Rightarrow> finish (Failure (Wrapped ''running node-collector job'' e))
             | Return job \<Rightarrow> runAndCollect env cl jb job))"

definition ApplyAndCollect ::
  "Env \<Rightarrow> 'w Cluster \<Rightarrow> jobCollector \<Rightarrow> string \<Rightarrow> ('w, string result) action" where
  "ApplyAndCollect env cl jb nodeName =
     seq (ensureNamespace cl jb)
       (\<lambda>err. case err of
          Some e \<Rightarrow> finish (Failure e)
        | None \<Rightarrow> provisionAndRun env cl jb nodeName)"

subsection \<open>Apply and Cleanup\<close>

definition applyJobOptions :: "jobCollector \<Rightarrow> string \<Rightarrow> JobOption list" where
  "applyJobOptions jb nodeName =
     [ WithNamespace (jc_namespace jb),
       WithLabels (jc_labels jb),
       withPodSecurityContext (jc_podSecurityContext jb),
       withSecurityContext (jc_securityContext jb),
       WithAffinity (jc_affinity jb),
       WithTolerations (jc_tolerations jb),
       WithJobServiceAccount (jc_serviceAccount jb),
       WithJobTimeout (jc_collectorTimeout jb),
       WithNodeCollectorImageRef (jc_imageRef jb),
       WithAnnotation (jc_annotation jb),
       WithTemplate (jc_templateName jb),
       WithPodVolumes (jc_volumes jb),
       WithNodeConfiguration (jc_nodeConfig jb),
       WithImagePullSecrets (jc_imagePullSecrets jb),
       WithContainerVolumeMounts (jc_volumeMounts jb),
       WithPriorityClassName (jc_priorityClassName jb),
       WithNodeName nodeName,
       WithJobName (jc_name jb),
       WithUseNodeSelectorParam (jc_useNodeSelector jb),
       WithResourceRequirements (jc_resourceRequirements jb) ]"

definition Apply :: "Env \<Rightarrow> 'w Cluster \<Rightarrow> jobCollector \<Rightarrow> string \<Rightarrow> ('w, Job result) action" where
  "Apply env cl jb nodeName =
     (case GetJob env (applyJobOptions jb nodeName) of
        Panic p \<Rightarrow> finish (Panic p)
      | Failure e \<Rightarrow> finish (Failure (Wrapped ''running node-collector job'' e))
      | Return job \<Rightarrow>
          seq (invokeR (CallJobsCreate (Namespace job) job) (JobsCreate cl (Namespace job) job))
            (\<lambda>r. finish (case r of Inl err \<Rightarrow> Failure err | Inr created \<Rightarrow> Return created)))"

definition deleteTrivyNamespace :: "'w Cluster \<Rightarrow> jobCollector \<Rightarrow> ('w, unit) action" where
  "deleteTrivyNamespace cl jb =
     seq (invoke (CallNamespacesDelete (jc_namespace jb)) (NamespacesDelete cl (jc_namespace jb)))
       (\<lambda>_. finish ())"

definition Cleanup :: "'w Cluster \<Rightarrow> jobCollector \<Rightarrow> ('w, unit) action" where
  "Cleanup cl jb = deleteTrivyNamespace cl jb"

subsection \<open>Observations on an invocation\<close>

text \<open>
  The state of the world an action ends in, the calls it issued, and the kinds of call
  the properties below speak of.
\<close>

definition world :: "'a \<times> 'w \<times> event list \<Rightarrow> 'w" where
  "world r = fst (snd r)"

fun isNamespacesCreate :: "call \<Rightarrow> bool" where
  "isNamespacesCreate (CallNamespacesCreate _) = True"
| "isNamespacesCreate _ = False"

fun isDelete :: "call \<Rightarrow> bool" where
  "isDelete (CallNamespacesDelete _) = True"
| "isDelete (CallClusterRoleBindingsDelete _) = True"
| "isDelete (CallClusterRolesDelete _) = True"
| "isDelete (CallServiceAccountsDelete _ _) = True"
| "isDelete (CallJobsDelete _ _) = True"
| "isDelete _ = False"

fun isLogRetrieval :: "call \<Rightarrow> bool" where
  "isLogRetrieval (CallGetLogs _ _) = True"
| "isLogRetrieval (CallReadAll _) = True"
| "isLogRetrieval (CallClose _) = True"
| "isLogRetrieval _ = False"

fun isRun :: "call \<Rightarrow> bool" where
  "isRun (CallRun _ _) = True"
| "isRun _ = False"

definition calls :: "'a \<times> 'w \<times> event list \<Rightarrow> call list" where
  "calls r = map fst (events r)"

fun isJobsCreate :: "call \<Rightarrow> bool" where
  "isJobsCreate (CallJobsCreate _ _) = True"
| "isJobsCreate _ = False"

section \<open>The job build returns\<close>

text \<open>
  The four statements of \<open>build\<close> that index \<open>Containers[0]\<close>, as they act when the
  index is in range; \<open>assemble\<close> is the sequence of all statements then, and \<open>primary\<close>
  what it makes of the first container. \<open>build_eq\<close> below proves that \<open>build\<close>
  returns \<open>assemble\<close> of the decoded template, or panics on an empty container slice.
\<close>

definition imageStep :: "JobBuilder \<Rightarrow> Job \<Rightarrow> Job" where
  "imageStep b job =
     (if 0 < length (b_imageRef b) then upd0 (\<lambda>c. c\<lparr>ImageName := b_imageRef b\<rparr>) job else job)"

definition nodeArgStep :: "JobBuilder \<Rightarrow> Job \<Rightarrow> Job" where
  "nodeArgStep b job =
     (if b_nodeConfig b then upd0 (\<lambda>c. c\<lparr>Args := Args c @ [''--node'', b_nodeName b]\<rparr>) job
      else job)"

definition securityContextStep :: "JobBuilder \<Rightarrow> Job \<Rightarrow> Job" where
  "securityContextStep b job =
     (if b_securityContext b \<noteq> None
      then upd0 (\<lambda>c. c\<lparr>ContainerSecurityContext := b_securityContext b\<rparr>) job else job)"

definition volumeMountsStep :: "JobBuilder \<Rightarrow> Job \<Rightarrow> Job" where
  "volumeMountsStep b job =
     (if 0 < length (b_volumeMounts b)
      then upd0 (\<lambda>c. c\<lparr>VolumeMounts := b_volumeMounts b\<rparr>) job else job)"

definition indexes0 :: "JobBuilder \<Rightarrow> bool" where
  "indexes0 b \<longleftrightarrow> 0 < length (b_imageRef b) \<or> b_nodeConfig b \<or> b_securityContext b \<noteq> None
     \<or> 0 < length (b_volumeMounts b)"

definition assemble :: "JobBuilder \<Rightarrow> Job \<Rightarrow> Job" where
  "assemble b job =
     volumeMountsStep b (setResources b (setImagePullSecrets b (setVolumes b
       (securityContextStep b (setDeadline b (setPodSecurityContext b
       (setPriorityClassName b (setTolerations b (setAffinity b (setServiceAccount b
       (appendAnnotations b (appendLabels b (setNodeSelector b
       (nodeArgStep b (imageStep b (setName b (setNamespace b job)))))))))))))))))"

definition mergeInto :: "gomap \<Rightarrow> (string \<times> string) list \<Rightarrow> gomap" where
  "mergeInto m xs = fold (\<lambda>(key, val) m. mapAssign m key val) xs m"

definition primary :: "JobBuilder \<Rightarrow> Container \<Rightarrow> Container" where
  "primary b c =
     c\<lparr> ImageName := (if 0 < length (b_imageRef b) then b_imageRef b else ImageName c),
        Args := (if b_nodeConfig b then Args c @ [''--node'', b_nodeName b] else Args c),
        ContainerSecurityContext :=
          (if b_securityContext b \<noteq> None then b_securityContext b
           else ContainerSecurityContext c),
        VolumeMounts :=
          (if 0 < length (b_volumeMounts b) then b_volumeMounts b else VolumeMounts c) \<rparr>"

section \<open>Concrete inputs\<close>

text \<open>
  A template with two containers, the parameters, a builder, a cluster on which every
  call succeeds and a collector in node-configuration mode; \<open>exampleJob\<close> is the job
  \<open>ApplyAndCollect\<close> builds from them for node \<open>node-1\<close>.
\<close>

definition exampleContainer :: "string \<Rightarrow> Container" where
  "exampleContainer name =
     \<lparr> ContainerName = name, ImageName = ''ghcr.io/aquasecurity/node-collector:0.3.1'',
       Args = [''k8s''], ContainerSecurityContext = None,
       Resources = ResourceRequirements ''template'', VolumeMounts = [] \<rparr>"

definition exampleTemplate :: Job where
  "exampleTemplate =
     \<lparr> Namespace = [], Name = ''node-collector'',
       Labels = Some [(''app'', ''node-collector''), (''tier'', ''scan'')], Annotations = None,
       Spec = \<lparr> ActiveDeadlineSeconds = None,
                Template = \<lparr> Containers = [exampleContainer ''node-collector'', exampleContainer ''sidecar''],
                             NodeSelector = None, ServiceAccountName = [], PodAffinity = None,
                             Tolerations = [], PriorityClassName = [],
                             PodSecurityContextOf = None, Volumes = [], ImagePullSecrets = [] \<rparr> \<rparr> \<rparr>"

definition exampleEnv :: Env where
  "exampleEnv =
     \<lparr> getTemplate = (\<lambda>name. ''manifest of '' @ name),
       yamlUnmarshal = (\<lambda>text. Inr exampleTemplate),
       ComputeHash = (\<lambda>ref. ''5f4b8c9d7''),
       GetAuth = (\<lambda>ns. Inr (ClusterRole ''cr'', ClusterRoleBinding ''rb'', ServiceAccount ''sa'')),
       clusterRole = ''node-collector-cr'', roleBinding = ''node-collector-rb'',
       serviceAccount = ''node-collector-sa'' \<rparr>"

definition exampleBuilder :: JobBuilder where
  "exampleBuilder =
     applyOptions
       [ WithTemplate ''node-collector'', WithNamespace ''trivy-temp'', WithNodeName ''node-1'',
         WithNodeCollectorImageRef ''registry.local/node-collector:1'',
         withSecurityContext (Some (SecurityContext ''restricted'')),
         WithContainerVolumeMounts [VolumeMount ''var-lib-kubelet''],
         WithLabels (Some [(''app'', ''trivy''), (''owner'', ''ops'')]),
         WithAnnotation (Some [(''note'', ''once'')]),
         WithNodeConfiguration True,
         WithResourceRequirements (Some (ResourceRequirements ''limits'')) ]"

definition exampleCluster :: "unit Cluster" where
  "exampleCluster =
     \<lparr> NamespacesGet = (\<lambda>ns w. (None, w)),
       NamespacesCreate = (\<lambda>ns w. (None, w)),
       NamespacesDelete = (\<lambda>ns w. (None, w)),
       ClusterRolesCreate = (\<lambda>cr w. (None, w)),
       ServiceAccountsCreate = (\<lambda>ns sa w. (None, w)),
       ClusterRoleBindingsCreate = (\<lambda>rb w. (None, w)),
       ClusterRoleBindingsDelete = (\<lambda>name w. (None, w)),
       ClusterRolesDelete = (\<lambda>name w. (None, w)),
       ServiceAccountsDelete = (\<lambda>ns name w. (None, w)),
       JobsCreate = (\<lambda>ns job w. (Inr job, w)),
       JobsDelete = (\<lambda>ns name w. (None, w)),
       RunnerRun = (\<lambda>timeout job w. (None, w)),
       GetLogsByJobAndContainerName = (\<lambda>job container w. (Inr (ReadCloser ''pod-log''), w)),
       ReadAll = (\<lambda>stream w. (Inr ''node info'', w)),
       StreamClose = (\<lambda>stream w. (None, w)) \<rparr>"

definition exampleCollector :: jobCollector where
  "exampleCollector =
     \<lparr> jc_timeout = 0, jc_labels = Some [(''app'', ''trivy'')], jc_annotation = None,
       jc_templateName = ''node-collector'', jc_namespace = ''trivy-temp'',
       jc_priorityClassName = [], jc_name = ''scan-node-1'', jc_serviceAccount = [],
       jc_podSecurityContext = None, jc_securityContext = None, jc_imageRef = [],
       jc_affinity = None, jc_tolerations = [], jc_volumes = [], jc_volumeMounts = [],
       jc_imagePullSecrets = [], jc_collectorTimeout = 0, jc_resourceRequirements = None,
       jc_nodeConfig = True, jc_useNodeSelector = False \<rparr>"

definition exampleJob :: Job where
  "exampleJob =
     \<lparr> Namespace = ''trivy-temp'', Name = ''node-collector-5f4b8c9d7'',
       Labels = Some [(''app'', ''trivy''), (''tier'', ''scan'')], Annotations = None,
       Spec = \<lparr> ActiveDeadlineSeconds = None,
                Template = \<lparr> Containers =
                               [(exampleContainer ''node-collector'')
                                  \<lparr>Args := [''k8s'', ''--node'', ''node-1'']\<rparr>,
                                exampleContainer ''sidecar''],
                             NodeSelector = Some [(''kubernetes.io/hostname'', ''node-1'')],
                             ServiceAccountName = ''node-collector-sa'', PodAffinity = None,
                             Tolerations = [], PriorityClassName = [],
                             PodSecurityContextOf = None, Volumes = [], ImagePullSecrets = [] \<rparr> \<rparr> \<rparr>"

text \<open>
  A second collector, outside node-configuration mode and with other labels, name and
  image; clusters whose runner times out, whose namespace lookup answers not-found, and
  whose namespace lookup answers another error; the jobs built for the second collector
  by \<open>ApplyAndCollect\<close> and for the first one by \<open>Apply\<close>.
\<close>

definition otherCollector :: jobCollector where
  "otherCollector =
     exampleCollector\<lparr> jc_labels := Some [(''run'', ''second'')], jc_name := ''another'',
       jc_nodeConfig := False, jc_imageRef := ''registry.local/node-collector:1'',
       jc_timeout := 60000000000 \<rparr>"

definition timeoutCluster :: "unit Cluster" where
  "timeoutCluster = exampleCluster\<lparr> RunnerRun := (\<lambda>timeout job w. (Some RunTimeoutError, w)) \<rparr>"

definition otherJob :: Job where
  "otherJob =
     \<lparr> Namespace = ''trivy-temp'', Name = ''node-collector-5f4b8c9d7'',
       Labels = Some [(''app'', ''node-collector''), (''tier'', ''scan''), (''run'', ''second'')],
       Annotations = None,
       Spec = \<lparr> ActiveDeadlineSeconds = None,
                Template = \<lparr> Containers =
                               [(exampleContainer ''node-collector'')
                                  \<lparr>ImageName := ''registry.local/node-collector:1''\<rparr>,
                                exampleContainer ''sidecar''],
                             NodeSelector = Some [(''kubernetes.io/hostname'', ''node-1'')],
                             ServiceAccountName = [], PodAffinity = None,
                             Tolerations = [], PriorityClassName = [],
                             PodSecurityContextOf = None, Volumes = [], ImagePullSecrets = [] \<rparr> \<rparr> \<rparr>"

definition notFoundCluster :: "unit Cluster" where
  "notFoundCluster = exampleCluster\<lparr> NamespacesGet := (\<lambda>ns w. (Some (NotFound ns), w)) \<rparr>"

definition forbiddenCluster :: "unit Cluster" where
  "forbiddenCluster =
     exampleCluster\<lparr> NamespacesGet := (\<lambda>ns w. (Some (StatusError ''forbidden''), w)) \<rparr>"

definition appliedJob :: Job where
  "appliedJob =
     \<lparr> Namespace = ''trivy-temp'', Name = ''scan-node-1'',
       Labels = Some [(''app'', ''trivy''), (''tier'', ''scan'')], Annotations = None,
       Spec = \<lparr> ActiveDeadlineSeconds = None,
                Template = \<lparr> Containers =
                               [(exampleContainer ''node-collector'')
                                  \<lparr>Args := [''k8s'', ''--node'', ''node-1'']\<rparr>,
                                exampleContainer ''sidecar''],
                             NodeSelector = None,
                             ServiceAccountName = [], PodAffinity = None,
                             Tolerations = [], PriorityClassName = [],
                             PodSecurityContextOf = None, Volumes = [], ImagePullSecrets = [] \<rparr> \<rparr> \<rparr>"

text \<open>
  Builders with a timeout of 90.5 seconds and of \<open>2\<^sup>2\<^sup>4\<close> seconds and 999999999
  nanoseconds, and the job \<open>build\<close> returns for the latter.
\<close>

definition timedBuilder :: JobBuilder where
  "timedBuilder = applyOptions [WithTemplate ''node-collector'', WithJobTimeout 90500000000]"

definition longBuilder :: JobBuilder where
  "longBuilder = applyOptions [WithTemplate ''node-collector'', WithJobTimeout 16777216999999999]"

definition longJob :: Job where
  "longJob = exampleTemplate\<lparr>Spec := (Spec exampleTemplate)\<lparr>ActiveDeadlineSeconds := Some 16777217\<rparr>\<rparr>"

text \<open>
  Parameters whose decoder rejects every manifest, and a cluster that refuses every job
  submission.
\<close>

definition decodeErrorEnv :: Env where
  "decodeErrorEnv = exampleEnv\<lparr> yamlUnmarshal := (\<lambda>text. Inl (DecodeError ''bad manifest'')) \<rparr>"

definition createFailsCluster :: "unit Cluster" where
  "createFailsCluster =
     exampleCluster\<lparr> JobsCreate := (\<lambda>ns job w. (Inl (StatusError ''already exists''), w)) \<rparr>"

section \<open>Lemmas on the float64 seconds of a duration\<close>

lemma pow2_powi: "pow2 e = 2 powi e"
  by (simp add: pow2_def power_int_def inverse_eq_divide power_one_over)

lemma pow2_pos: "0 < pow2 e"
  by (simp add: pow2_powi)

lemma pow2_mono: "a \<le> b \<Longrightarrow> pow2 a \<le> pow2 b"
  by (simp add: pow2_powi power_int_increasing)

lemma pow2_less_cancel: "pow2 a < pow2 b \<Longrightarrow> a < b"
  using pow2_mono[of b a] by (cases "a < b") simp_all

lemma pow2_half: "pow2 (e - 1) = pow2 e / 2"
  by (simp add: pow2_powi power_int_diff)

lemma pow2_nat: "pow2 (int n) = 2 ^ n"
  by (simp add: pow2_powi)

lemma pow2_diff: "pow2 (a - b) = pow2 a / pow2 b"
  by (simp add: pow2_powi power_int_diff)

lemma exponent_bounds:
  assumes "0 < x"
  shows "pow2 (exponent x) \<le> x \<and> x < pow2 (exponent x + 1)"
proof -
  obtain p q where pq: "quotient_of x = (p, q)" by (cases "quotient_of x")
  have q: "0 < q" using pq by (rule quotient_of_denom_pos)
  have x: "x = of_int p / of_int q" using pq by (rule quotient_of_div)
  have p: "0 < p" using assms q by (simp add: x zero_less_divide_iff)
  define d where "d = bitlen p - bitlen q"
  have bp: "2 ^ nat (bitlen p - 1) \<le> p" "p < 2 ^ nat (bitlen p)"
    using bitlen_bounds[OF p] by simp_all
  have bq: "2 ^ nat (bitlen q - 1) \<le> q" "q < 2 ^ nat (bitlen q)"
    using bitlen_bounds[OF q] by simp_all
  have lp: "1 \<le> bitlen p" using p by (simp add: bitlen_alt_def)
  have lq: "1 \<le> bitlen q" using q by (simp add: bitlen_alt_def)
  have P1: "pow2 (bitlen p - 1) \<le> of_int p"
  proof -
    have "(of_int (2 ^ nat (bitlen p - 1)) :: rat) \<le> of_int p"
      using bp(1) by (simp only: of_int_le_iff)
    then show ?thesis using lp by (simp add: pow2_def)
  qed
  have P2: "of_int p < pow2 (bitlen p)"
  proof -
    have "(of_int p :: rat) < of_int (2 ^ nat (bitlen p))"
      using bp(2) by (simp only: of_int_less_iff)
    then show ?thesis using lp by (simp add: pow2_def)
  qed
  have Q1: "pow2 (bitlen q - 1) \<le> of_int q"
  proof -
    have "(of_int (2 ^ nat (bitlen q - 1)) :: rat) \<le> of_int q"
      using bq(1) by (simp only: of_int_le_iff)
    then show ?thesis using lq by (simp add: pow2_def)
  qed
  have Q2: "of_int q < pow2 (bitlen q)"
  proof -
    have "(of_int q :: rat) < of_int (2 ^ nat (bitlen q))"
      using bq(2) by (simp only: of_int_less_iff)
    then show ?thesis using lq by (simp add: pow2_def)
  qed
  have qpos: "(0::rat) < of_int q" using q by simp
  have lower: "pow2 (d - 1) \<le> x"
  proof -
    have "pow2 (d - 1) = pow2 (bitlen p - 1) / pow2 (bitlen q)"
      by (simp add: d_def pow2_diff [symmetric] algebra_simps)
    also have "\<dots> \<le> of_int p / pow2 (bitlen q)"
      using P1 pow2_pos[of "bitlen q"] by (simp add: divide_right_mono)
    also have "\<dots> \<le> of_int p / of_int q"
      using Q2 qpos p by (simp add: frac_le)
    finally show ?thesis by (simp add: x)
  qed
  have upper: "x < pow2 (d + 1)"
  proof -
    have "x = of_int p / of_int q" by (rule x)
    also have "\<dots> \<le> of_int p / pow2 (bitlen q - 1)"
      using Q1 pow2_pos[of "bitlen q - 1"] p by (simp add: frac_le)
    also have "\<dots> < pow2 (bitlen p) / pow2 (bitlen q - 1)"
      using P2 pow2_pos[of "bitlen q - 1"] by (simp add: divide_strict_right_mono)
    also have "\<dots> = pow2 (d + 1)"
      by (simp add: d_def pow2_diff [symmetric] algebra_simps)
    finally show ?thesis .
  qed
  have e: "exponent x = (if pow2 d \<le> x then d else d - 1)"
    by (simp add: exponent_def pq d_def Let_def)
  show ?thesis
  proof (cases "pow2 d \<le> x")
    case True
    then show ?thesis using upper by (simp add: e)
  next
    case False
    then show ?thesis using lower by (simp add: e)
  qed
qed

lemma exponent_le:
  assumes "0 < x" and "x < pow2 n"
  shows "exponent x \<le> n - 1"
proof -
  have "pow2 (exponent x) < pow2 n"
    using exponent_bounds[OF assms(1)] assms(2) by simp
  then show ?thesis using pow2_less_cancel by fastforce
qed

lemma roundHalfEven_of_int: "roundHalfEven (of_int k) = k"
  by (simp add: roundHalfEven_def)

lemma roundHalfEven_floor: "\<lfloor>y\<rfloor> \<le> roundHalfEven y \<and> roundHalfEven y \<le> \<lfloor>y\<rfloor> + 1"
  by (simp add: roundHalfEven_def Let_def)

lemma roundHalfEven_ge:
  assumes "of_int k \<le> y"
  shows "k \<le> roundHalfEven y"
proof -
  have "k \<le> \<lfloor>y\<rfloor>" using assms by (simp add: le_floor_iff)
  then show ?thesis using roundHalfEven_floor[of y] by linarith
qed

lemma roundHalfEven_err: "\<bar>of_int (roundHalfEven y) - y\<bar> \<le> 1 / 2"
proof -
  have "of_int \<lfloor>y\<rfloor> \<le> y" "y < of_int \<lfloor>y\<rfloor> + 1" by linarith+
  then show ?thesis
    by (auto simp: roundHalfEven_def Let_def abs_le_iff)
qed

lemma float64_err:
  assumes "0 < x"
  shows "\<bar>float64 x - x\<bar> \<le> pow2 (exponent x - 53)"
proof -
  define u where "u = pow2 (exponent x - 52)"
  have u: "0 < u" by (simp add: u_def pow2_pos)
  have f: "float64 x = of_int (roundHalfEven (x / u)) * u"
    using assms by (simp add: float64_def u_def Let_def)
  have "float64 x - x = (of_int (roundHalfEven (x / u)) - x / u) * u"
    using u by (simp add: f algebra_simps)
  then have "\<bar>float64 x - x\<bar> = \<bar>of_int (roundHalfEven (x / u)) - x / u\<bar> * u"
    using u by (simp add: abs_mult)
  also have "\<dots> \<le> 1 / 2 * u"
    using roundHalfEven_err[of "x / u"] u by (intro mult_right_mono) simp_all
  also have "\<dots> = pow2 (exponent x - 53)"
    using pow2_half[of "exponent x - 52"] by (simp add: u_def)
  finally show ?thesis .
qed

lemma float64_ge_int:
  assumes "0 < x" and "x < 2 ^ 53" and "of_int k \<le> x"
  shows "of_int k \<le> float64 x"
proof -
  define e where "e = exponent x"
  define u where "u = pow2 (e - 52)"
  have u: "0 < u" by (simp add: u_def pow2_pos)
  have "x < pow2 53" using assms(2) pow2_nat[of 53] by simp
  then have e: "e \<le> 52" using exponent_le[OF assms(1), of 53] by (simp add: e_def)
  have inv: "1 / u = of_int (2 ^ nat (52 - e))"
    using e by (simp add: u_def pow2_def)
  have f: "float64 x = of_int (roundHalfEven (x / u)) * u"
    using assms(1) by (simp add: float64_def u_def e_def Let_def)
  have "of_int k / u \<le> x / u"
    using assms(3) u by (simp add: divide_right_mono)
  moreover have "of_int k / u = of_int (k * 2 ^ nat (52 - e))"
  proof -
    have "of_int k / u = of_int k * (1 / u)" by simp
    then show ?thesis by (simp only: inv of_int_mult)
  qed
  ultimately have "k * 2 ^ nat (52 - e) \<le> roundHalfEven (x / u)"
    by (simp only: roundHalfEven_ge)
  then have "(of_int (k * 2 ^ nat (52 - e)) :: rat) \<le> of_int (roundHalfEven (x / u))"
    by (simp only: of_int_le_iff)
  then have A: "of_int (k * 2 ^ nat (52 - e)) * u \<le> float64 x"
    using u by (simp add: f mult_right_mono)
  have B: "of_int (k * 2 ^ nat (52 - e)) * u = of_int k"
  proof -
    have "of_int (k * 2 ^ nat (52 - e)) * u = of_int k * ((1 / u) * u)"
      by (simp only: inv of_int_mult mult.assoc)
    then show ?thesis using u by simp
  qed
  show ?thesis using A by (simp only: B)
qed

lemma float64_of_int:
  assumes "0 \<le> n" and "n < 2 ^ 53"
  shows "float64 (of_int n) = of_int n"
proof (cases "n = 0")
  case True
  then show ?thesis by (simp add: float64_def)
next
  case False
  define x :: rat where "x = of_int n"
  have x: "0 < x" using assms(1) False by (simp add: x_def)
  define e where "e = exponent x"
  define u where "u = pow2 (e - 52)"
  have u: "0 < u" by (simp add: u_def pow2_pos)
  have "x < of_int (2 ^ 53)" unfolding x_def using assms(2) by (simp only: of_int_less_iff)
  then have "x < pow2 53" using pow2_nat[of 53] by simp
  then have e: "e \<le> 52" using exponent_le[OF x, of 53] by (simp add: e_def)
  have inv: "1 / u = of_int (2 ^ nat (52 - e))"
    using e by (simp add: u_def pow2_def)
  have f: "float64 x = of_int (roundHalfEven (x / u)) * u"
    using x by (simp add: float64_def u_def e_def Let_def)
  have "x / u = of_int n * (1 / u)" by (simp add: x_def)
  then have xu: "x / u = of_int (n * 2 ^ nat (52 - e))"
    by (simp only: inv of_int_mult)
  have "float64 x = of_int (n * 2 ^ nat (52 - e)) * u"
    by (simp only: f xu roundHalfEven_of_int)
  also have "\<dots> = of_int n * ((1 / u) * u)"
    by (simp only: inv of_int_mult mult.assoc)
  also have "\<dots> = of_int n" using u by simp
  finally show ?thesis by (simp add: x_def)
qed

lemma Seconds_sum:
  assumes "0 < d" and "d div 1000000000 < 2 ^ 53"
  obtains q where "Seconds d = float64 (of_int (d div 1000000000) + q)"
    and "0 \<le> q" and "q \<le> 1 - 1 / 1000000000 + pow2 (- 54)"
proof -
  define sec where "sec = d div 1000000000"
  define nsec where "nsec = d mod 1000000000"
  have sec: "0 \<le> sec" "sec < 2 ^ 53" and nsec: "0 \<le> nsec" "nsec < 1000000000"
    using assms by (simp_all add: sec_def nsec_def pos_imp_zdiv_nonneg_iff)
  have sd: "d sdiv Second = sec" "d smod Second = nsec"
    using assms(1) by (simp_all add: Second_def sec_def nsec_def signed_divide_int_def
        signed_modulo_int_def sgn_if)
  define q where "q = float64 (of_int nsec / 1000000000)"
  have fs: "float64 (of_int sec) = of_int sec"
    using sec by (rule float64_of_int)
  have fn: "float64 (of_int nsec) = of_int nsec"
    using nsec by (intro float64_of_int) simp_all
  have fb: "float64 1000000000 = 1000000000"
    using float64_of_int[of 1000000000] by simp
  have S: "Seconds d = float64 (of_int (d div 1000000000) + q)"
    by (simp add: Seconds_def sd fs fn fb q_def Let_def) (simp add: sec_def)
  have q0: "0 \<le> q"
  proof (cases "nsec = 0")
    case True
    then show ?thesis by (simp add: q_def float64_def)
  next
    case False
    have "0 < (of_int nsec :: rat) / 1000000000" using nsec False by simp
    moreover have "(of_int nsec :: rat) / 1000000000 < 2 ^ 53"
      using nsec by (simp add: divide_less_eq)
    ultimately show ?thesis
      using float64_ge_int[of "of_int nsec / 1000000000" 0] by (simp add: q_def)
  qed
  have q1: "q \<le> 1 - 1 / 1000000000 + pow2 (- 54)"
  proof (cases "nsec = 0")
    case True
    then show ?thesis using pow2_pos[of "- 54"] by (simp add: q_def float64_def)
  next
    case False
    define y :: rat where "y = of_int nsec / 1000000000"
    have y: "0 < y" using nsec False by (simp add: y_def)
    have "nsec \<le> 999999999" using nsec by simp
    then have "(of_int nsec :: rat) \<le> of_int 999999999" by (simp only: of_int_le_iff)
    then have "of_int nsec \<le> (999999999 :: rat)" by simp
    then have y1: "y \<le> 1 - 1 / 1000000000"
      by (simp add: y_def field_simps)
    then have "y < pow2 0" by (simp add: pow2_def)
    then have "exponent y \<le> - 1" using exponent_le[OF y, of 0] by simp
    then have "pow2 (exponent y - 53) \<le> pow2 (- 54)"
      by (intro pow2_mono) simp
    then have "\<bar>float64 y - y\<bar> \<le> pow2 (- 54)"
      using float64_err[OF y] by linarith
    then show ?thesis using y1 by (simp add: q_def y_def abs_le_iff)
  qed
  from S q0 q1 show thesis by (rule that)
qed

lemma float64_sum_bounds:
  assumes "0 \<le> sec" and "of_int sec + 1 \<le> pow2 (int n)" and "n \<le> 53"
    and "0 \<le> q" and "q \<le> 1 - 1 / 1000000000 + pow2 (- 54)"
  shows "of_int sec \<le> float64 (of_int sec + q)"
    and "float64 (of_int sec + q) \<le> of_int sec + 1 - 1 / 1000000000 + pow2 (- 54) + pow2 (int n - 54)"
proof -
  define z where "z = of_int sec + q"
  have z0: "of_int sec \<le> z" using assms(4) by (simp add: z_def)
  have z1: "z \<le> of_int sec + 1 - 1 / 1000000000 + pow2 (- 54)"
    using assms(5) by (simp add: z_def)
  have small: "pow2 (- 54) < 1 / 1000000000" by (simp add: pow2_def)
  have "of_int sec \<le> float64 z \<and>
      float64 z \<le> of_int sec + 1 - 1 / 1000000000 + pow2 (- 54) + pow2 (int n - 54)"
  proof (cases "z = 0")
    case True
    then have "sec = 0" using z0 assms(1) by simp
    then show ?thesis using True pow2_pos[of "- 54"] pow2_pos[of "int n - 54"]
      by (simp add: float64_def)
  next
    case False
    then have zpos: "0 < z" using z0 assms(1) by (simp add: order.strict_iff_order)
    have zn: "z < pow2 (int n)" using z1 small assms(2) by linarith
    have "pow2 (int n) \<le> pow2 53" using assms(3) by (intro pow2_mono) simp
    then have z53: "z < 2 ^ 53" using zn pow2_nat[of 53] by simp
    have lo: "of_int sec \<le> float64 z"
      using float64_ge_int[OF zpos z53 z0] .
    have "exponent z \<le> int n - 1" using exponent_le[OF zpos zn] .
    then have "pow2 (exponent z - 53) \<le> pow2 (int n - 54)"
      by (intro pow2_mono) simp
    then have "\<bar>float64 z - z\<bar> \<le> pow2 (int n - 54)"
      using float64_err[OF zpos] by linarith
    then have "float64 z \<le> of_int sec + 1 - 1 / 1000000000 + pow2 (- 54) + pow2 (int n - 54)"
      using z1 by (simp add: abs_le_iff)
    then show ?thesis using lo by simp
  qed
  then show "of_int sec \<le> float64 (of_int sec + q)"
    and "float64 (of_int sec + q) \<le> of_int sec + 1 - 1 / 1000000000 + pow2 (- 54) + pow2 (int n - 54)"
    by (simp_all add: z_def)
qed

lemma Seconds_truncates:
  assumes "0 < d" and "d < 2 ^ 24 * 1000000000"
  shows "int64_of_float64 (Seconds d) = d div 1000000000"
proof -
  define sec where "sec = d div 1000000000"
  have sec: "0 \<le> sec" "sec < 2 ^ 24"
    using assms by (simp_all add: sec_def div_less_iff_less_mult pos_imp_zdiv_nonneg_iff)
  then have "d div 1000000000 < 2 ^ 53" by (simp add: sec_def)
  from Seconds_sum[OF assms(1) this] obtain q where
    S: "Seconds d = float64 (of_int sec + q)" and q: "0 \<le> q" "q \<le> 1 - 1 / 1000000000 + pow2 (- 54)"
    unfolding sec_def by blast
  have "sec \<le> 16777215" using sec(2) by simp
  then have "(of_int sec :: rat) \<le> of_int 16777215" by (simp only: of_int_le_iff)
  then have "(of_int sec :: rat) + 1 \<le> 2 ^ 24" by simp
  then have top: "(of_int sec :: rat) + 1 \<le> pow2 (int 24)" by (simp only: pow2_nat)
  note b = float64_sum_bounds[OF sec(1) top _ q]
  have "pow2 (- 54) + pow2 (int 24 - 54) < 1 / 1000000000"
    by (simp add: pow2_def)
  then have "float64 (of_int sec + q) < of_int sec + 1"
    using b(2) by simp
  then have "\<lfloor>float64 (of_int sec + q)\<rfloor> = sec"
    using b(1) by (simp add: floor_unique)
  moreover have "0 \<le> float64 (of_int sec + q)"
    using b(1) sec(1) by (simp add: order_trans[of 0 "of_int sec"])
  ultimately show ?thesis
    by (simp add: int64_of_float64_def S sec_def)
qed

lemma Seconds_within_one:
  assumes "0 < d" and "d < 2 ^ 63"
  shows "d div 1000000000 \<le> int64_of_float64 (Seconds d)
       \<and> int64_of_float64 (Seconds d) \<le> d div 1000000000 + 1"
proof -
  define sec where "sec = d div 1000000000"
  have sec: "0 \<le> sec" "sec < 2 ^ 34"
    using assms by (simp_all add: sec_def div_less_iff_less_mult pos_imp_zdiv_nonneg_iff)
  then have "d div 1000000000 < 2 ^ 53" by (simp add: sec_def)
  from Seconds_sum[OF assms(1) this] obtain q where
    S: "Seconds d = float64 (of_int sec + q)" and q: "0 \<le> q" "q \<le> 1 - 1 / 1000000000 + pow2 (- 54)"
    unfolding sec_def by blast
  have "sec \<le> 17179869183" using sec(2) by simp
  then have "(of_int sec :: rat) \<le> of_int 17179869183" by (simp only: of_int_le_iff)
  then have "(of_int sec :: rat) + 1 \<le> 2 ^ 34" by simp
  then have top: "(of_int sec :: rat) + 1 \<le> pow2 (int 34)" by (simp only: pow2_nat)
  note b = float64_sum_bounds[OF sec(1) top _ q]
  have "pow2 (- 54) + pow2 (int 34 - 54) < 1"
    by (simp add: pow2_def)
  then have "float64 (of_int sec + q) < of_int (sec + 2)"
    using b(2) by simp
  then have hi: "\<lfloor>float64 (of_int sec + q)\<rfloor> < sec + 2"
    by (simp only: floor_less_iff)
  have lo: "sec \<le> \<lfloor>float64 (of_int sec + q)\<rfloor>"
    using b(1) by (simp add: le_floor_iff)
  have "0 \<le> float64 (of_int sec + q)"
    using b(1) sec(1) by (simp add: order_trans[of 0 "of_int sec"])
  then show ?thesis
    using lo hi by (simp add: int64_of_float64_def S sec_def)
qed

lemma Seconds_long: "int64_of_float64 (Seconds 16777216999999999) = 16777217"
  by code_simp

section \<open>Lemmas on build\<close>

lemma fold_Labels:
  "fold (\<lambda>(key, val) job. job\<lparr>Labels := mapAssign (Labels job) key val\<rparr>) xs job =
     job\<lparr>Labels := mergeInto (Labels job) xs\<rparr>"
  by (induction xs arbitrary: job) (auto simp: mergeInto_def)

lemma fold_Annotations:
  "fold (\<lambda>(key, val) job. job\<lparr>Annotations := mapAssign (Annotations job) key val\<rparr>) xs job =
     job\<lparr>Annotations := mergeInto (Annotations job) xs\<rparr>"
  by (induction xs arbitrary: job) (auto simp: mergeInto_def)

lemma appendLabels_eq: "appendLabels b job = job\<lparr>Labels := mergeInto (Labels job) (entries (b_labels b))\<rparr>"
  by (simp add: appendLabels_def fold_Labels)

lemma appendAnnotations_eq:
  "appendAnnotations b job = job\<lparr>Annotations := mergeInto (Annotations job) (entries (b_annotations b))\<rparr>"
  by (simp add: appendAnnotations_def fold_Annotations)

lemma fold_copy: "fold (\<lambda>c job. job) cs job = job"
  by (induction cs) simp_all

lemma setResources_eq: "setResources b job = job"
  by (simp add: setResources_def fold_copy split: option.splits)

lemma lookup_mergeInto:
  "lookup (mergeInto m xs) k = (case map_of (rev xs) k of Some v \<Rightarrow> Some v | None \<Rightarrow> lookup m k)"
proof (induction xs arbitrary: m)
  case Nil
  show ?case by (simp add: mergeInto_def)
next
  case (Cons x xs)
  obtain key val where x: "x = (key, val)" by (cases x)
  have "lookup (mergeInto m (x # xs)) k = lookup (mergeInto (mapAssign m key val) xs) k"
    by (simp add: mergeInto_def x)
  also have "\<dots> = (case map_of (rev xs) k of Some v \<Rightarrow> Some v | None \<Rightarrow> lookup (mapAssign m key val) k)"
    by (rule Cons.IH)
  also have "lookup (mapAssign m key val) k = (if k = key then Some val else lookup m k)"
    by (simp add: lookup_def mapAssign_def entries_def update_conv' split: option.splits)
  finally show ?case
    by (simp add: x map_add_def split: option.splits)
qed


lemma podOf_updPod: "podOf (updPod f job) = f (podOf job)"
  by (simp add: podOf_def updPod_def)

lemma updPod_frame:
  "Namespace (updPod f job) = Namespace job" "Name (updPod f job) = Name job"
  "Labels (updPod f job) = Labels job" "Annotations (updPod f job) = Annotations job"
  "ActiveDeadlineSeconds (Spec (updPod f job)) = ActiveDeadlineSeconds (Spec job)"
  by (simp_all add: updPod_def)

lemma upd0_Containers:
  "Containers (podOf (upd0 f job)) = (Containers (podOf job))[0 := f (Containers (podOf job) ! 0)]"
  by (simp add: upd0_def podOf_updPod)

lemma upd0_frame:
  "Namespace (upd0 f job) = Namespace job" "Name (upd0 f job) = Name job"
  "Labels (upd0 f job) = Labels job" "Annotations (upd0 f job) = Annotations job"
  "ActiveDeadlineSeconds (Spec (upd0 f job)) = ActiveDeadlineSeconds (Spec job)"
  "NodeSelector (podOf (upd0 f job)) = NodeSelector (podOf job)"
  by (simp_all add: upd0_def updPod_frame podOf_updPod)

lemma setImage_eq:
  "setImage b job =
     (if 0 < length (b_imageRef b) \<and> Containers (podOf job) = []
      then Panic ''index out of range [0] with length 0'' else Return (imageStep b job))"
  by (simp add: setImage_def setContainer0_def imageStep_def)

lemma appendNodeArg_eq:
  "appendNodeArg b job =
     (if b_nodeConfig b \<and> Containers (podOf job) = []
      then Panic ''index out of range [0] with length 0'' else Return (nodeArgStep b job))"
  by (simp add: appendNodeArg_def setContainer0_def nodeArgStep_def)

lemma setSecurityContext_eq:
  "setSecurityContext b job =
     (if b_securityContext b \<noteq> None \<and> Containers (podOf job) = []
      then Panic ''index out of range [0] with length 0'' else Return (securityContextStep b job))"
  by (simp add: setSecurityContext_def setContainer0_def securityContextStep_def)

lemma setVolumeMounts_eq:
  "setVolumeMounts b job =
     (if 0 < length (b_volumeMounts b) \<and> Containers (podOf job) = []
      then Panic ''index out of range [0] with length 0'' else Return (volumeMountsStep b job))"
  by (simp add: setVolumeMounts_def setContainer0_def volumeMountsStep_def)

text \<open>What each statement leaves alone.\<close>

lemma setNamespace_frame:
  "Name (setNamespace b job) = Name job" "Labels (setNamespace b job) = Labels job"
  "Annotations (setNamespace b job) = Annotations job" "Spec (setNamespace b job) = Spec job"
  "podOf (setNamespace b job) = podOf job"
  by (simp_all add: setNamespace_def podOf_def)

lemma setName_frame:
  "Namespace (setName b job) = Namespace job" "Labels (setName b job) = Labels job"
  "Annotations (setName b job) = Annotations job" "Spec (setName b job) = Spec job"
  "podOf (setName b job) = podOf job"
  by (simp_all add: setName_def podOf_def)

lemma imageStep_frame:
  "Namespace (imageStep b job) = Namespace job" "Name (imageStep b job) = Name job"
  "Labels (imageStep b job) = Labels job" "Annotations (imageStep b job) = Annotations job"
  "ActiveDeadlineSeconds (Spec (imageStep b job)) = ActiveDeadlineSeconds (Spec job)"
  "NodeSelector (podOf (imageStep b job)) = NodeSelector (podOf job)"
  by (simp_all add: imageStep_def upd0_frame)

lemma nodeArgStep_frame:
  "Namespace (nodeArgStep b job) = Namespace job" "Name (nodeArgStep b job) = Name job"
  "Labels (nodeArgStep b job) = Labels job" "Annotations (nodeArgStep b job) = Annotations job"
  "ActiveDeadlineSeconds (Spec (nodeArgStep b job)) = ActiveDeadlineSeconds (Spec job)"
  "NodeSelector (podOf (nodeArgStep b job)) = NodeSelector (podOf job)"
  by (simp_all add: nodeArgStep_def upd0_frame)

lemma securityContextStep_frame:
  "Namespace (securityContextStep b job) = Namespace job" "Name (securityContextStep b job) = Name job"
  "Labels (securityContextStep b job) = Labels job"
  "Annotations (securityContextStep b job) = Annotations job"
  "ActiveDeadlineSeconds (Spec (securityContextStep b job)) = ActiveDeadlineSeconds (Spec job)"
  "NodeSelector (podOf (securityContextStep b job)) = NodeSelector (podOf job)"
  by (simp_all add: securityContextStep_def upd0_frame)

lemma volumeMountsStep_frame:
  "Namespace (volumeMountsStep b job) = Namespace job" "Name (volumeMountsStep b job) = Name job"
  "Labels (volumeMountsStep b job) = Labels job"
  "Annotations (volumeMountsStep b job) = Annotations job"
  "ActiveDeadlineSeconds (Spec (volumeMountsStep b job)) = ActiveDeadlineSeconds (Spec job)"
  "NodeSelector (podOf (volumeMountsStep b job)) = NodeSelector (podOf job)"
  by (simp_all add: volumeMountsStep_def upd0_frame)

lemma setNodeSelector_frame:
  "Namespace (setNodeSelector b job) = Namespace job" "Name (setNodeSelector b job) = Name job"
  "Labels (setNodeSelector b job) = Labels job"
  "Annotations (setNodeSelector b job) = Annotations job"
  "ActiveDeadlineSeconds (Spec (setNodeSelector b job)) = ActiveDeadlineSeconds (Spec job)"
  "Containers (podOf (setNodeSelector b job)) = Containers (podOf job)"
  by (simp_all add: setNodeSelector_def updPod_frame podOf_updPod)

lemma appendLabels_frame:
  "Namespace (appendLabels b job) = Namespace job" "Name (appendLabels b job) = Name job"
  "Annotations (appendLabels b job) = Annotations job" "Spec (appendLabels b job) = Spec job"
  "podOf (appendLabels b job) = podOf job"
  by (simp_all add: appendLabels_eq podOf_def)

lemma appendAnnotations_frame:
  "Namespace (appendAnnotations b job) = Namespace job" "Name (appendAnnotations b job) = Name job"
  "Labels (appendAnnotations b job) = Labels job" "Spec (appendAnnotations b job) = Spec job"
  "podOf (appendAnnotations b job) = podOf job"
  by (simp_all add: appendAnnotations_eq podOf_def)

lemma setServiceAccount_frame:
  "Namespace (setServiceAccount b job) = Namespace job" "Name (setServiceAccount b job) = Name job"
  "Labels (setServiceAccount b job) = Labels job"
  "Annotations (setServiceAccount b job) = Annotations job"
  "ActiveDeadlineSeconds (Spec (setServiceAccount b job)) = ActiveDeadlineSeconds (Spec job)"
  "Containers (podOf (setServiceAccount b job)) = Containers (podOf job)"
  "NodeSelector (podOf (setServiceAccount b job)) = NodeSelector (podOf job)"
  by (simp_all add: setServiceAccount_def updPod_frame podOf_updPod)

lemma setAffinity_frame:
  "Namespace (setAffinity b job) = Namespace job" "Name (setAffinity b job) = Name job"
  "Labels (setAffinity b job) = Labels job"
  "Annotations (setAffinity b job) = Annotations job"
  "ActiveDeadlineSeconds (Spec (setAffinity b job)) = ActiveDeadlineSeconds (Spec job)"
  "Containers (podOf (setAffinity b job)) = Containers (podOf job)"
  "NodeSelector (podOf (setAffinity b job)) = NodeSelector (podOf job)"
  by (simp_all add: setAffinity_def updPod_frame podOf_updPod)

lemma setTolerations_frame:
  "Namespace (setTolerations b job) = Namespace job" "Name (setTolerations b job) = Name job"
  "Labels (setTolerations b job) = Labels job"
  "Annotations (setTolerations b job) = Annotations job"
  "ActiveDeadlineSeconds (Spec (setTolerations b job)) = ActiveDeadlineSeconds (Spec job)"
  "Containers (podOf (setTolerations b job)) = Containers (podOf job)"
  "NodeSelector (podOf (setTolerations b job)) = NodeSelector (podOf job)"
  by (simp_all add: setTolerations_def updPod_frame podOf_updPod)

lemma setPriorityClassName_frame:
  "Namespace (setPriorityClassName b job) = Namespace job"
  "Name (setPriorityClassName b job) = Name job"
  "Labels (setPriorityClassName b job) = Labels job"
  "Annotations (setPriorityClassName b job) = Annotations job"
  "ActiveDeadlineSeconds (Spec (setPriorityClassName b job)) = ActiveDeadlineSeconds (Spec job)"
  "Containers (podOf (setPriorityClassName b job)) = Containers (podOf job)"
  "NodeSelector (podOf (setPriorityClassName b job)) = NodeSelector (podOf job)"
  by (simp_all add: setPriorityClassName_def updPod_frame podOf_updPod)

lemma setPodSecurityContext_frame:
  "Namespace (setPodSecurityContext b job) = Namespace job"
  "Name (setPodSecurityContext b job) = Name job"
  "Labels (setPodSecurityContext b job) = Labels job"
  "Annotations (setPodSecurityContext b job) = Annotations job"
  "ActiveDeadlineSeconds (Spec (setPodSecurityContext b job)) = ActiveDeadlineSeconds (Spec job)"
  "Containers (podOf (setPodSecurityContext b job)) = Containers (podOf job)"
  "NodeSelector (podOf (setPodSecurityContext b job)) = NodeSelector (podOf job)"
  by (simp_all add: setPodSecurityContext_def updPod_frame podOf_updPod)

lemma setDeadline_frame:
  "Namespace (setDeadline b job) = Namespace job" "Name (setDeadline b job) = Name job"
  "Labels (setDeadline b job) = Labels job" "Annotations (setDeadline b job) = Annotations job"
  "podOf (setDeadline b job) = podOf job"
  by (simp_all add: setDeadline_def podOf_def)

lemma setVolumes_frame:
  "Namespace (setVolumes b job) = Namespace job" "Name (setVolumes b job) = Name job"
  "Labels (setVolumes b job) = Labels job"
  "Annotations (setVolumes b job) = Annotations job"
  "ActiveDeadlineSeconds (Spec (setVolumes b job)) = ActiveDeadlineSeconds (Spec job)"
  "Containers (podOf (setVolumes b job)) = Containers (podOf job)"
  "NodeSelector (podOf (setVolumes b job)) = NodeSelector (podOf job)"
  by (simp_all add: setVolumes_def updPod_frame podOf_updPod)

lemma setImagePullSecrets_frame:
  "Namespace (setImagePullSecrets b job) = Namespace job"
  "Name (setImagePullSecrets b job) = Name job"
  "Labels (setImagePullSecrets b job) = Labels job"
  "Annotations (setImagePullSecrets b job) = Annotations job"
  "ActiveDeadlineSeconds (Spec (setImagePullSecrets b job)) = ActiveDeadlineSeconds (Spec job)"
  "Containers (podOf (setImagePullSecrets b job)) = Containers (podOf job)"
  "NodeSelector (podOf (setImagePullSecrets b job)) = NodeSelector (podOf job)"
  by (simp_all add: setImagePullSecrets_def updPod_frame podOf_updPod)

lemmas frames =
  setNamespace_frame setName_frame imageStep_frame nodeArgStep_frame securityContextStep_frame
  volumeMountsStep_frame setNodeSelector_frame appendLabels_frame appendAnnotations_frame
  setServiceAccount_frame setAffinity_frame setTolerations_frame setPriorityClassName_frame
  setPodSecurityContext_frame setDeadline_frame setVolumes_frame setImagePullSecrets_frame
  setResources_eq

text \<open>No statement changes the number of containers.\<close>

lemma step_empty:
  "Containers (podOf (imageStep b job)) = [] \<longleftrightarrow> Containers (podOf job) = []"
  "Containers (podOf (nodeArgStep b job)) = [] \<longleftrightarrow> Containers (podOf job) = []"
  "Containers (podOf (securityContextStep b job)) = [] \<longleftrightarrow> Containers (podOf job) = []"
  "Containers (podOf (volumeMountsStep b job)) = [] \<longleftrightarrow> Containers (podOf job) = []"
  by (simp_all add: imageStep_def nodeArgStep_def securityContextStep_def volumeMountsStep_def
      upd0_Containers)

lemma build_eq:
  "build env b =
     (case yamlUnmarshal env (getTemplate env (b_template b)) of
        Inl err \<Rightarrow> Failure err
      | Inr job \<Rightarrow>
          if indexes0 b \<and> Containers (podOf job) = []
          then Panic ''index out of range [0] with length 0''
          else Return (assemble b job))"
  by (simp add: build_def setImage_eq appendNodeArg_eq setSecurityContext_eq setVolumeMounts_eq
      frames step_empty assemble_def indexes0_def split: sum.splits)

lemma assemble_Namespace: "Namespace (assemble b t) = b_namespace b"
  by (simp add: assemble_def frames) (simp add: setNamespace_def)

lemma assemble_Name: "Name (assemble b t) = (if 0 < length (b_name b) then b_name b else Name t)"
  by (simp add: assemble_def frames) (simp add: setName_def setNamespace_def)

lemma assemble_Labels: "Labels (assemble b t) = mergeInto (Labels t) (entries (b_labels b))"
  by (simp add: assemble_def frames) (simp add: appendLabels_eq frames)

lemma assemble_Annotations:
  "Annotations (assemble b t) = mergeInto (Annotations t) (entries (b_annotations b))"
  by (simp add: assemble_def frames) (simp add: appendAnnotations_eq frames)

lemma assemble_ActiveDeadlineSeconds:
  "ActiveDeadlineSeconds (Spec (assemble b t)) =
     (if 0 < b_timeout b then Some (int64_of_float64 (Seconds (b_timeout b)))
      else ActiveDeadlineSeconds (Spec t))"
  by (simp add: assemble_def frames) (simp add: setDeadline_def frames)

lemma assemble_NodeSelector:
  "NodeSelector (podOf (assemble b t)) =
     (if b_useNodeSelector b then Some [(LabelHostname, b_nodeName b)] else NodeSelector (podOf t))"
  by (simp add: assemble_def frames) (simp add: setNodeSelector_def podOf_updPod frames)

lemma assemble_Containers:
  "Containers (podOf (assemble b t)) =
     (case Containers (podOf t) of [] \<Rightarrow> [] | c # cs \<Rightarrow> primary b c # cs)"
  by (simp add: assemble_def frames)
     (simp add: imageStep_def nodeArgStep_def securityContextStep_def volumeMountsStep_def
        upd0_Containers primary_def frames split: list.splits)

lemmas option_defs =
  WithTemplate_def WithNodeName_def WithJobName_def WithNamespace_def WithJobServiceAccount_def
  WithLabels_def WithAnnotation_def WithAffinity_def WithTolerations_def
  WithPriorityClassName_def WithNodeCollectorImageRef_def withSecurityContext_def
  withPodSecurityContext_def WithPodVolumes_def WithContainerVolumeMounts_def
  WithImagePullSecrets_def WithResourceRequirements_def WithJobTimeout_def
  WithNodeConfiguration_def WithUseNodeSelectorParam_def

lemma exampleBuilder_eq:
  "exampleBuilder =
     \<lparr> b_template = ''node-collector'', b_nodeName = ''node-1'', b_namespace = ''trivy-temp'',
       b_imageRef = ''registry.local/node-collector:1'',
       b_serviceAccount = [], b_name = [], b_labels = Some [(''app'', ''trivy''), (''owner'', ''ops'')],
       b_podSecurityContext = None,
       b_securityContext = Some (SecurityContext ''restricted''),
       b_annotations = Some [(''note'', ''once'')], b_affinity = None,
       b_tolerations = [], b_priorityClassName = [], b_volumes = [],
       b_volumeMounts = [VolumeMount ''var-lib-kubelet''],
       b_imagePullSecrets = [], b_resourceRequirements = Some (ResourceRequirements ''limits''),
       b_timeout = 0, b_nodeConfig = True, b_useNodeSelector = False \<rparr>"
  by (simp add: exampleBuilder_def applyOptions_def zeroJobBuilder_def option_defs)

lemma example_unmarshal:
  "yamlUnmarshal exampleEnv (getTemplate exampleEnv (b_template b)) = Inr exampleTemplate"
  by (simp add: exampleEnv_def)

lemma example_containers:
  "Containers (podOf exampleTemplate) = [exampleContainer ''node-collector'', exampleContainer ''sidecar'']"
  by (simp add: exampleTemplate_def podOf_def)

lemma map_of_rev_distinct: "distinct (map fst xs) \<Longrightarrow> map_of (rev xs) = map_of xs"
proof (induction xs)
  case Nil
  show ?case by simp
next
  case (Cons x xs)
  have "map_of xs (fst x) = None"
    using Cons.prems by (simp add: map_of_eq_None_iff)
  then show ?case
    using Cons by (cases x) (auto simp: map_add_def fun_eq_iff split: option.splits)
qed

lemma mergeInto_order:
  assumes "distinct (map fst xs)" and "distinct (map fst ys)" and "set xs = set ys"
  shows "lookup (mergeInto m xs) k = lookup (mergeInto m ys) k"
proof -
  have "map_of xs = map_of ys"
    using assms by (simp add: map_of_inject_set)
  then show ?thesis
    using assms(1,2) by (simp add: lookup_mergeInto map_of_rev_distinct)
qed

lemma collectBuilder_eq:
  "applyOptions (collectJobOptions env jb nodeName) =
     \<lparr> b_template = jc_templateName jb, b_nodeName = nodeName, b_namespace = jc_namespace jb,
       b_imageRef = jc_imageRef jb,
       b_serviceAccount = (if jc_nodeConfig jb then serviceAccount env else []),
       b_name = jc_templateName jb @ ''-'' @
         ComputeHash env (ObjectRef ''Node-Info'' nodeName (jc_namespace jb)),
       b_labels = jc_labels jb, b_podSecurityContext = jc_podSecurityContext jb,
       b_securityContext = jc_securityContext jb, b_annotations = jc_annotation jb,
       b_affinity = jc_affinity jb, b_tolerations = jc_tolerations jb,
       b_priorityClassName = jc_priorityClassName jb, b_volumes = jc_volumes jb,
       b_volumeMounts = jc_volumeMounts jb, b_imagePullSecrets = jc_imagePullSecrets jb,
       b_resourceRequirements = jc_resourceRequirements jb, b_timeout = jc_collectorTimeout jb,
       b_nodeConfig = jc_nodeConfig jb, b_useNodeSelector = True \<rparr>"
  by (simp add: collectJobOptions_def applyOptions_def zeroJobBuilder_def option_defs)

lemma applyBuilder_eq:
  "applyOptions (applyJobOptions jb nodeName) =
     \<lparr> b_template = jc_templateName jb, b_nodeName = nodeName, b_namespace = jc_namespace jb,
       b_imageRef = jc_imageRef jb, b_serviceAccount = jc_serviceAccount jb,
       b_name = jc_name jb,
       b_labels = jc_labels jb, b_podSecurityContext = jc_podSecurityContext jb,
       b_securityContext = jc_securityContext jb, b_annotations = jc_annotation jb,
       b_affinity = jc_affinity jb, b_tolerations = jc_tolerations jb,
       b_priorityClassName = jc_priorityClassName jb, b_volumes = jc_volumes jb,
       b_volumeMounts = jc_volumeMounts jb, b_imagePullSecrets = jc_imagePullSecrets jb,
       b_resourceRequirements = jc_resourceRequirements jb, b_timeout = jc_collectorTimeout jb,
       b_nodeConfig = jc_nodeConfig jb, b_useNodeSelector = jc_useNodeSelector jb \<rparr>"
  by (simp add: applyJobOptions_def applyOptions_def zeroJobBuilder_def option_defs)

lemma GetJob_Return:
  assumes "GetJob env opts = Return job"
  shows "\<exists>t. yamlUnmarshal env (getTemplate env (b_template (applyOptions opts))) = Inr t \<and>
           job = assemble (applyOptions opts) t"
  using assms by (auto simp: GetJob_def build_eq split: sum.splits if_splits)

lemmas step_defs =
  setNamespace_def setName_def setImage_def appendNodeArg_def setNodeSelector_def
  appendLabels_def appendAnnotations_def setServiceAccount_def setAffinity_def
  setTolerations_def setPriorityClassName_def setPodSecurityContext_def setDeadline_def
  setSecurityContext_def setVolumes_def setImagePullSecrets_def setResources_def
  setVolumeMounts_def setContainer0_def upd0_def updPod_def podOf_def mapAssign_def entries_def
  LabelHostname_def

lemma example_collect_job:
  "GetJob exampleEnv (collectJobOptions exampleEnv exampleCollector ''node-1'') = Return exampleJob"
  by (simp add: GetJob_def collectBuilder_eq build_def step_defs exampleEnv_def
      exampleCollector_def exampleTemplate_def exampleJob_def exampleContainer_def)

section \<open>Lemmas on the collector\<close>

lemma seq_simps:
  "outcome (seq m f w) = outcome (f (outcome (m w)) (world (m w)))"
  "world (seq m f w) = world (f (outcome (m w)) (world (m w)))"
  "events (seq m f w) = events (m w) @ events (f (outcome (m w)) (world (m w)))"
  by (simp_all add: seq_def outcome_def world_def events_def split: prod.splits)

lemma finish_simps:
  "outcome (finish a w) = a" "world (finish a w) = w" "events (finish a w) = []"
  by (simp_all add: finish_def outcome_def world_def events_def)

lemma invoke_simps:
  "outcome (invoke c op w) = fst (op w)" "world (invoke c op w) = snd (op w)"
  "events (invoke c op w) = [(c, fst (op w))]"
  by (simp_all add: invoke_def outcome_def world_def events_def split: prod.splits)

lemma invokeR_simps:
  "outcome (invokeR c op w) = fst (op w)" "world (invokeR c op w) = snd (op w)"
  "events (invokeR c op w) = [(c, errOf (fst (op w)))]"
  by (simp_all add: invokeR_def outcome_def world_def events_def split: prod.splits)

lemmas action_simps = seq_simps finish_simps invoke_simps invokeR_simps

lemma calls_createRBAC:
  "\<forall>c \<in> set (calls (createRBAC env cl jb w)).
     \<not> isNamespacesCreate c \<and> \<not> isDelete c \<and> \<not> isLogRetrieval c \<and> \<not> isRun c"
  by (simp add: createRBAC_def calls_def action_simps split: sum.splits option.splits prod.splits)

lemma calls_cleanup:
  "\<forall>c \<in> set (calls (cleanup env cl jb job w)).
     \<not> isNamespacesCreate c \<and> \<not> isLogRetrieval c \<and> \<not> isRun c"
  by (simp add: cleanup_def calls_def action_simps)

lemma calls_readLogs:
  "\<forall>c \<in> set (calls (readLogs cl job w)).
     \<not> isNamespacesCreate c \<and> \<not> isDelete c \<and> \<not> isRun c"
  by (simp add: readLogs_def calls_def action_simps split: sum.splits)


lemma ev_calls: "(c, r) \<in> set (events x) \<Longrightarrow> c \<in> set (calls x)"
  by (force simp: calls_def)

lemma calls_ensureNamespace:
  "\<forall>c \<in> set (calls (ensureNamespace cl jb w)). \<not> isDelete c \<and> \<not> isLogRetrieval c \<and> \<not> isRun c"
  by (simp add: ensureNamespace_def calls_def action_simps split: option.splits)

lemma events_runAndCollect:
  "events (runAndCollect env cl jb job w) =
     (CallRun (jc_timeout jb) job, fst (RunnerRun cl (jc_timeout jb) job w)) #
     (case fst (RunnerRun cl (jc_timeout jb) job w) of
        Some e \<Rightarrow> []
      | None \<Rightarrow> events (readLogs cl job (snd (RunnerRun cl (jc_timeout jb) job w))) @
          events (cleanup env cl jb job
            (world (readLogs cl job (snd (RunnerRun cl (jc_timeout jb) job w))))))"
  by (simp add: runAndCollect_def action_simps split: option.splits)

lemma outcome_runAndCollect_failed:
  "fst (RunnerRun cl (jc_timeout jb) job w) = Some e \<Longrightarrow>
     outcome (runAndCollect env cl jb job w) = Failure (Wrapped ''running node-collector job'' e)"
  by (simp add: runAndCollect_def action_simps)


lemma no_run_events:
  "(CallRun t j, r) \<notin> set (events (readLogs cl job w))"
  "(CallRun t j, r) \<notin> set (events (cleanup env cl jb job w))"
  "(CallRun t j, r) \<notin> set (events (createRBAC env cl jb w))"
  "(CallRun t j, r) \<notin> set (events (ensureNamespace cl jb w))"
  using calls_readLogs[of cl job w] calls_cleanup[of env cl jb job w]
    calls_createRBAC[of env cl jb w] calls_ensureNamespace[of cl jb w]
  by (force dest: ev_calls)+

lemma run_event_runAndCollect:
  assumes "(CallRun t j, r) \<in> set (events (runAndCollect env cl jb job w))"
  shows "t = jc_timeout jb \<and> j = job \<and> r = fst (RunnerRun cl (jc_timeout jb) job w)"
  using assms by (auto simp: events_runAndCollect no_run_events split: option.splits)

lemma run_event_provisionAndRun:
  assumes "(CallRun t j, r) \<in> set (events (provisionAndRun env cl jb nodeName w))"
  shows "GetJob env (collectJobOptions env jb nodeName) = Return j \<and> t = jc_timeout jb \<and>
    r = fst (RunnerRun cl (jc_timeout jb) j (world (createRBAC env cl jb w))) \<and>
    outcome (provisionAndRun env cl jb nodeName w) =
      outcome (runAndCollect env cl jb j (world (createRBAC env cl jb w))) \<and>
    events (provisionAndRun env cl jb nodeName w) =
      events (createRBAC env cl jb w) @ events (runAndCollect env cl jb j (world (createRBAC env cl jb w)))"
  using assms
  by (auto simp: provisionAndRun_def action_simps no_run_events split: option.splits result.splits
      dest: run_event_runAndCollect)

lemma run_event_ApplyAndCollect:
  assumes "(CallRun t j, r) \<in> set (events (ApplyAndCollect env cl jb nodeName w))"
  shows "GetJob env (collectJobOptions env jb nodeName) = Return j \<and> t = jc_timeout jb \<and>
    (\<exists>w2. r = fst (RunnerRun cl (jc_timeout jb) j w2) \<and>
       outcome (ApplyAndCollect env cl jb nodeName w) = outcome (runAndCollect env cl jb j w2) \<and>
       events (ApplyAndCollect env cl jb nodeName w) =
         events (ensureNamespace cl jb w) @
         events (createRBAC env cl jb (world (ensureNamespace cl jb w))) @
         events (runAndCollect env cl jb j w2))"
  using assms
  by (auto simp: ApplyAndCollect_def action_simps no_run_events split: option.splits
      dest!: run_event_provisionAndRun)

lemmas phase_defs =
  ApplyAndCollect_def provisionAndRun_def runAndCollect_def ensureNamespace_def createRBAC_def
  readLogs_def cleanup_def

lemma exampleCluster_simps:
  "NamespacesGet exampleCluster ns w = (None, w)"
  "NamespacesCreate exampleCluster ns w = (None, w)"
  "NamespacesDelete exampleCluster ns w = (None, w)"
  "ClusterRolesCreate exampleCluster cr w = (None, w)"
  "ServiceAccountsCreate exampleCluster ns sa w = (None, w)"
  "ClusterRoleBindingsCreate exampleCluster rb w = (None, w)"
  "ClusterRoleBindingsDelete exampleCluster name w = (None, w)"
  "ClusterRolesDelete exampleCluster name w = (None, w)"
  "ServiceAccountsDelete exampleCluster ns name w = (None, w)"
  "JobsCreate exampleCluster ns job w = (Inr job, w)"
  "JobsDelete exampleCluster ns name w = (None, w)"
  "RunnerRun exampleCluster timeout job w = (None, w)"
  "GetLogsByJobAndContainerName exampleCluster job container w = (Inr (ReadCloser ''pod-log''), w)"
  "ReadAll exampleCluster stream w = (Inr ''node info'', w)"
  "StreamClose exampleCluster stream w = (None, w)"
  by (simp_all add: exampleCluster_def)

lemma exampleEnv_simps:
  "GetAuth exampleEnv ns = Inr (ClusterRole ''cr'', ClusterRoleBinding ''rb'', ServiceAccount ''sa'')"
  "clusterRole exampleEnv = ''node-collector-cr''"
  "roleBinding exampleEnv = ''node-collector-rb''"
  "serviceAccount exampleEnv = ''node-collector-sa''"
  "ComputeHash exampleEnv ref = ''5f4b8c9d7''"
  by (simp_all add: exampleEnv_def)

lemma exampleCollector_simps:
  "jc_namespace exampleCollector = ''trivy-temp''" "jc_nodeConfig exampleCollector = True"
  "jc_timeout exampleCollector = 0" "jc_templateName exampleCollector = ''node-collector''"
  "jc_name exampleCollector = ''scan-node-1''" "jc_useNodeSelector exampleCollector = False"
  by (simp_all add: exampleCollector_def)

lemma exampleJob_simps:
  "Namespace exampleJob = ''trivy-temp''" "Name exampleJob = ''node-collector-5f4b8c9d7''"
  "NodeSelector (podOf exampleJob) = Some [(''kubernetes.io/hostname'', ''node-1'')]"
  by (simp_all add: exampleJob_def podOf_def)

lemmas example_simps =
  exampleCluster_simps exampleEnv_simps exampleCollector_simps exampleJob_simps

lemma example_run_events:
  "events (ApplyAndCollect exampleEnv exampleCluster exampleCollector ''node-1'' ()) =
     [ (CallNamespacesGet ''trivy-temp'', None),
       (CallClusterRolesCreate (ClusterRole ''cr''), None),
       (CallServiceAccountsCreate ''trivy-temp'' (ServiceAccount ''sa''), None),
       (CallClusterRoleBindingsCreate (ClusterRoleBinding ''rb''), None),
       (CallRun 0 exampleJob, None),
       (CallGetLogs exampleJob ''node-collector'', None),
       (CallReadAll (ReadCloser ''pod-log''), None),
       (CallClose (ReadCloser ''pod-log''), None),
       (CallClusterRoleBindingsDelete ''node-collector-rb'', None),
       (CallClusterRolesDelete ''node-collector-cr'', None),
       (CallServiceAccountsDelete ''trivy-temp'' ''node-collector-sa'', None),
       (CallJobsDelete ''trivy-temp'' ''node-collector-5f4b8c9d7'', None) ]"
  by (simp add: phase_defs action_simps example_collect_job example_simps errOf_def
      NodeCollectorName_def)

lemma example_run_outcome:
  "outcome (ApplyAndCollect exampleEnv exampleCluster exampleCollector ''node-1'' ()) = Return ''node info''"
  by (simp add: phase_defs action_simps example_collect_job example_simps errOf_def
      NodeCollectorName_def)

lemma other_collect_job:
  "GetJob exampleEnv (collectJobOptions exampleEnv otherCollector ''node-1'') = Return otherJob"
  by (simp add: GetJob_def collectBuilder_eq build_def step_defs exampleEnv_def
      exampleCollector_def otherCollector_def exampleTemplate_def otherJob_def exampleContainer_def)

lemma otherCollector_simps:
  "jc_namespace otherCollector = ''trivy-temp''" "jc_nodeConfig otherCollector = False"
  "jc_timeout otherCollector = 60000000000" "jc_templateName otherCollector = ''node-collector''"
  by (simp_all add: otherCollector_def exampleCollector_def)

lemma timeoutCluster_simps:
  "NamespacesGet timeoutCluster ns w = (None, w)"
  "RunnerRun timeoutCluster timeout job w = (Some RunTimeoutError, w)"
  by (simp_all add: timeoutCluster_def exampleCluster_simps)

lemma timeout_run_events:
  "events (ApplyAndCollect exampleEnv timeoutCluster otherCollector ''node-1'' ()) =
     [ (CallNamespacesGet ''trivy-temp'', None), (CallRun 60000000000 otherJob, Some RunTimeoutError) ]"
  by (simp add: phase_defs action_simps other_collect_job otherCollector_simps timeoutCluster_simps)

lemma timeout_run_outcome:
  "outcome (ApplyAndCollect exampleEnv timeoutCluster otherCollector ''node-1'' ()) =
     Failure (Wrapped ''running node-collector job'' RunTimeoutError)"
  by (simp add: phase_defs action_simps other_collect_job otherCollector_simps timeoutCluster_simps)

lemma calls_simps:
  "calls (seq m f w) = calls (m w) @ calls (f (outcome (m w)) (world (m w)))"
  "calls (finish a w) = []"
  "calls (invoke c op w) = [c]"
  "calls (invokeR c op' w) = [c]"
  by (simp_all add: calls_def action_simps)

lemma calls_runAndCollect:
  "\<forall>c \<in> set (calls (runAndCollect env cl jb job w)). \<not> isNamespacesCreate c"
  using calls_readLogs[of cl job] calls_cleanup[of env cl jb job]
  by (auto simp: runAndCollect_def calls_simps split: option.splits)

lemma calls_provisionAndRun:
  "\<forall>c \<in> set (calls (provisionAndRun env cl jb nodeName w)). \<not> isNamespacesCreate c"
  using calls_createRBAC[of env cl jb w] calls_runAndCollect[of env cl jb]
  by (auto simp: provisionAndRun_def calls_simps split: option.splits result.splits)

lemma filter_provisionAndRun:
  "filter isNamespacesCreate (calls (provisionAndRun env cl jb nodeName w)) = []"
  using calls_provisionAndRun[of env cl jb nodeName w] by (simp add: filter_empty_conv)

lemma notFoundCluster_simps:
  "NamespacesGet notFoundCluster ns w = (Some (NotFound ns), w)"
  "NamespacesCreate notFoundCluster = NamespacesCreate exampleCluster"
  "ClusterRolesCreate notFoundCluster = ClusterRolesCreate exampleCluster"
  "ServiceAccountsCreate notFoundCluster = ServiceAccountsCreate exampleCluster"
  "ClusterRoleBindingsCreate notFoundCluster = ClusterRoleBindingsCreate exampleCluster"
  "ClusterRoleBindingsDelete notFoundCluster = ClusterRoleBindingsDelete exampleCluster"
  "ClusterRolesDelete notFoundCluster = ClusterRolesDelete exampleCluster"
  "ServiceAccountsDelete notFoundCluster = ServiceAccountsDelete exampleCluster"
  "JobsDelete notFoundCluster = JobsDelete exampleCluster"
  "RunnerRun notFoundCluster = RunnerRun exampleCluster"
  "GetLogsByJobAndContainerName notFoundCluster = GetLogsByJobAndContainerName exampleCluster"
  "ReadAll notFoundCluster = ReadAll exampleCluster"
  "StreamClose notFoundCluster = StreamClose exampleCluster"
  by (simp_all add: notFoundCluster_def)

lemma forbiddenCluster_simps:
  "NamespacesGet forbiddenCluster ns w = (Some (StatusError ''forbidden''), w)"
  "NamespacesCreate forbiddenCluster = NamespacesCreate exampleCluster"
  "ClusterRolesCreate forbiddenCluster = ClusterRolesCreate exampleCluster"
  "ServiceAccountsCreate forbiddenCluster = ServiceAccountsCreate exampleCluster"
  "ClusterRoleBindingsCreate forbiddenCluster = ClusterRoleBindingsCreate exampleCluster"
  "ClusterRoleBindingsDelete forbiddenCluster = ClusterRoleBindingsDelete exampleCluster"
  "ClusterRolesDelete forbiddenCluster = ClusterRolesDelete exampleCluster"
  "ServiceAccountsDelete forbiddenCluster = ServiceAccountsDelete exampleCluster"
  "JobsDelete forbiddenCluster = JobsDelete exampleCluster"
  "RunnerRun forbiddenCluster = RunnerRun exampleCluster"
  "GetLogsByJobAndContainerName forbiddenCluster = GetLogsByJobAndContainerName exampleCluster"
  "ReadAll forbiddenCluster = ReadAll exampleCluster"
  "StreamClose forbiddenCluster = StreamClose exampleCluster"
  by (simp_all add: forbiddenCluster_def)

lemma delete_runAndCollect:
  assumes "c \<in> set (calls (runAndCollect env cl jb job w))" and "isDelete c"
  shows "(CallRun (jc_timeout jb) job, None) \<in> set (events (runAndCollect env cl jb job w))"
  using assms
  by (auto simp: calls_def events_runAndCollect split: option.splits)

lemma delete_provisionAndRun:
  assumes "c \<in> set (calls (provisionAndRun env cl jb nodeName w))" and "isDelete c"
  shows "\<exists>job. (CallRun (jc_timeout jb) job, None) \<in> set (events (provisionAndRun env cl jb nodeName w))"
  using assms calls_createRBAC[of env cl jb w]
  by (auto simp: provisionAndRun_def calls_simps action_simps calls_def[symmetric]
      split: option.splits result.splits dest: delete_runAndCollect)

lemma delete_ApplyAndCollect:
  assumes "c \<in> set (calls (ApplyAndCollect env cl jb nodeName w))" and "isDelete c"
  shows "\<exists>job. (CallRun (jc_timeout jb) job, None) \<in> set (events (ApplyAndCollect env cl jb nodeName w))"
  using assms calls_ensureNamespace[of cl jb w]
  by (auto simp: ApplyAndCollect_def calls_simps action_simps
      split: option.splits dest: delete_provisionAndRun)

lemma events_Apply:
  "events (Apply env cl jb nodeName w) =
     (case GetJob env (applyJobOptions jb nodeName) of
        Return job \<Rightarrow>
          [(CallJobsCreate (Namespace job) job, errOf (fst (JobsCreate cl (Namespace job) job w)))]
      | _ \<Rightarrow> [])"
  by (simp add: Apply_def action_simps split: result.splits)

lemma outcome_Apply:
  "outcome (Apply env cl jb nodeName w) =
     (case GetJob env (applyJobOptions jb nodeName) of
        Return job \<Rightarrow>
          (case fst (JobsCreate cl (Namespace job) job w) of
             Inl err \<Rightarrow> Failure err | Inr created \<Rightarrow> Return created)
      | Failure e \<Rightarrow> Failure (Wrapped ''running node-collector job'' e)
      | Panic p \<Rightarrow> Panic p)"
  by (simp add: Apply_def action_simps split: result.splits)

lemma example_apply_job:
  "GetJob exampleEnv (applyJobOptions exampleCollector ''node-1'') = Return appliedJob"
  by (simp add: GetJob_def applyBuilder_eq build_def step_defs exampleEnv_def
      exampleCollector_def exampleTemplate_def appliedJob_def exampleContainer_def)

lemma appliedJob_simps:
  "Namespace appliedJob = ''trivy-temp''" "Name appliedJob = ''scan-node-1''"
  "NodeSelector (podOf appliedJob) = None"
  by (simp_all add: appliedJob_def podOf_def)

lemma example_apply_events:
  "events (Apply exampleEnv exampleCluster exampleCollector ''node-1'' ()) =
     [(CallJobsCreate ''trivy-temp'' appliedJob, None)]"
  by (simp add: events_Apply example_apply_job appliedJob_simps exampleCluster_simps errOf_def)

lemma example_apply_outcome:
  "outcome (Apply exampleEnv exampleCluster exampleCollector ''node-1'' ()) = Return appliedJob"
  by (simp add: outcome_Apply example_apply_job appliedJob_simps exampleCluster_simps)

lemma Apply_Return:
  assumes "build env (applyOptions (applyJobOptions jb nodeName)) = Return job"
  shows "Apply env cl jb nodeName w =
     (case JobsCreate cl (Namespace job) job w of
        (Inl err, w') \<Rightarrow> (Failure err, w', [(CallJobsCreate (Namespace job) job, Some err)])
      | (Inr created, w') \<Rightarrow> (Return created, w', [(CallJobsCreate (Namespace job) job, None)]))"
  using assms
  by (simp add: Apply_def GetJob_def seq_def invokeR_def finish_def errOf_def
      split: prod.splits sum.splits)

lemma Apply_not_built:
  "build env (applyOptions (applyJobOptions jb nodeName)) = Failure e \<Longrightarrow>
     Apply env cl jb nodeName w = (Failure (Wrapped ''running node-collector job'' e), w, [])"
  "build env (applyOptions (applyJobOptions jb nodeName)) = Panic p \<Longrightarrow>
     Apply env cl jb nodeName w = (Panic p, w, [])"
  by (simp_all add: Apply_def GetJob_def finish_def)

lemma example_apply_build:
  "build exampleEnv (applyOptions (applyJobOptions exampleCollector ''node-1'')) = Return appliedJob"
  using example_apply_job by (simp add: GetJob_def)

lemma decodeError_apply_build:
  "build decodeErrorEnv (applyOptions (applyJobOptions exampleCollector ''node-1'')) =
     Failure (DecodeError ''bad manifest'')"
  by (simp add: build_def decodeErrorEnv_def)

section \<open>Properties\<close>

text \<open>
  C1. The claim: with a non-nil resource requirement set, every container of the built
  job carries it. The loop of lines 225 to 229 assigns to a copy of each container, so
  the built job keeps the resources of the template: here the builder asks for
  \<open>limits\<close> and both containers of the built job still carry \<open>template\<close>.
\<close>

theorem build_resources_unchanged:
  "b_resourceRequirements exampleBuilder = Some (ResourceRequirements ''limits'') \<and>
   (\<exists>j. build exampleEnv exampleBuilder = Return j \<and>
      map Resources (Containers (podOf j)) =
        [ResourceRequirements ''template'', ResourceRequirements ''template''])"
proof -
  have "build exampleEnv exampleBuilder = Return (assemble exampleBuilder exampleTemplate)"
    by (simp add: build_eq example_unmarshal example_containers)
  then show ?thesis
    by (simp add: example_containers assemble_Containers primary_def exampleBuilder_eq
        exampleContainer_def)
qed

text \<open>
  C5. When the template decodes to a job with at least one container, \<open>build\<close> returns
  a job; with node-configuration mode on, the arguments of its first container are those
  of the template followed by \<open>--node\<close> and the node name, once, and the arguments of
  the other containers are those of the template; with the mode off, no container's
  arguments change. Whenever \<open>build\<close> returns a job in node-configuration mode the
  template had a first container, whatever the other fields of the builder.
\<close>

theorem build_node_argument:
  assumes "yamlUnmarshal env (getTemplate env (b_template b)) = Inr t"
  shows "(\<forall>c cs. Containers (podOf t) = c # cs \<longrightarrow>
            (\<exists>j. build env b = Return j \<and>
               map Args (Containers (podOf j)) =
                 (if b_nodeConfig b then (Args c @ [''--node'', b_nodeName b]) # map Args cs
                  else map Args (c # cs))))
       \<and> (\<forall>j. build env b = Return j \<longrightarrow>
            (if b_nodeConfig b
             then \<exists>c cs. Containers (podOf t) = c # cs \<and>
                    map Args (Containers (podOf j)) = (Args c @ [''--node'', b_nodeName b]) # map Args cs
             else map Args (Containers (podOf j)) = map Args (Containers (podOf t))))"
  using assms
  by (auto simp: build_eq assemble_Containers primary_def indexes0_def split: list.splits)

theorem build_node_argument_witness:
  "b_nodeConfig exampleBuilder \<and>
   (\<exists>j. build exampleEnv exampleBuilder = Return j \<and>
      map Args (Containers (podOf j)) = [[''k8s'', ''--node'', ''node-1''], [''k8s'']])"
  using build_node_argument[OF example_unmarshal, of exampleBuilder]
  by (simp add: example_containers exampleBuilder_eq exampleContainer_def)

text \<open>
  C6. When the template decodes to a job with containers \<open>c # cs\<close>, \<open>build\<close> returns a
  job whose first container carries the image reference, the container security context
  and the volume mounts of the builder (each when it is set), and whose other containers
  have the image, the security context and the volume mounts of the template.
\<close>

theorem build_first_container_only:
  assumes "yamlUnmarshal env (getTemplate env (b_template b)) = Inr t"
    and "Containers (podOf t) = c # cs"
  shows "\<exists>j c' cs'. build env b = Return j \<and> Containers (podOf j) = c' # cs' \<and>
           (0 < length (b_imageRef b) \<longrightarrow> ImageName c' = b_imageRef b) \<and>
           (b_securityContext b \<noteq> None \<longrightarrow> ContainerSecurityContext c' = b_securityContext b) \<and>
           (0 < length (b_volumeMounts b) \<longrightarrow> VolumeMounts c' = b_volumeMounts b) \<and>
           map ImageName cs' = map ImageName cs \<and>
           map ContainerSecurityContext cs' = map ContainerSecurityContext cs \<and>
           map VolumeMounts cs' = map VolumeMounts cs"
  using assms by (simp add: build_eq assemble_Containers primary_def)

theorem build_first_container_only_witness:
  "\<exists>j c' cs'. build exampleEnv exampleBuilder = Return j \<and> Containers (podOf j) = c' # cs' \<and>
     ImageName c' = ''registry.local/node-collector:1'' \<and>
     ContainerSecurityContext c' = Some (SecurityContext ''restricted'') \<and>
     VolumeMounts c' = [VolumeMount ''var-lib-kubelet''] \<and>
     map ImageName cs' = [''ghcr.io/aquasecurity/node-collector:0.3.1''] \<and>
     map ContainerSecurityContext cs' = [None] \<and> map VolumeMounts cs' = [[]]"
  using build_first_container_only[OF example_unmarshal example_containers, of exampleBuilder]
  by (simp add: exampleBuilder_eq exampleContainer_def)

text \<open>
  C8. In the built job, a label key supplied by the caller has the caller's value, and
  any other key has what the template has for it (its value, or absent): the labels of
  the template are kept and the caller's are added, the caller winning on a collision.
  The same holds of the annotations. The caller's maps are Go maps: their keys are
  distinct.
\<close>

theorem build_merges_labels:
  assumes "yamlUnmarshal env (getTemplate env (b_template b)) = Inr t"
    and "build env b = Return j"
    and "distinct (map fst (entries (b_labels b)))"
    and "distinct (map fst (entries (b_annotations b)))"
  shows "lookup (Labels j) k =
           (case lookup (b_labels b) k of Some v \<Rightarrow> Some v | None \<Rightarrow> lookup (Labels t) k)
       \<and> lookup (Annotations j) k =
           (case lookup (b_annotations b) k of Some v \<Rightarrow> Some v | None \<Rightarrow> lookup (Annotations t) k)"
proof -
  have j: "j = assemble b t"
    using assms(1,2) by (simp add: build_eq split: if_splits)
  show ?thesis
    using assms(3,4)
    by (simp add: j assemble_Labels assemble_Annotations lookup_mergeInto map_of_rev_distinct)
       (simp add: lookup_def)
qed

theorem build_merges_labels_witness:
  "distinct (map fst (entries (b_labels exampleBuilder))) \<and>
   distinct (map fst (entries (b_annotations exampleBuilder))) \<and>
   (\<exists>j. build exampleEnv exampleBuilder = Return j \<and>
      map (lookup (Labels j)) [''app'', ''tier'', ''owner'', ''zone'']
        = [Some ''trivy'', Some ''scan'', Some ''ops'', None] \<and>
      lookup (Annotations j) ''note'' = Some ''once'')"
proof -
  have b: "build exampleEnv exampleBuilder = Return (assemble exampleBuilder exampleTemplate)"
    by (simp add: build_eq example_unmarshal example_containers)
  have d1: "distinct (map fst (entries (b_labels exampleBuilder)))"
    and d2: "distinct (map fst (entries (b_annotations exampleBuilder)))"
    by (simp_all add: exampleBuilder_eq entries_def)
  note m = build_merges_labels[OF example_unmarshal b d1 d2]
  have "map (lookup (Labels (assemble exampleBuilder exampleTemplate))) [''app'', ''tier'', ''owner'', ''zone'']
        = [Some ''trivy'', Some ''scan'', Some ''ops'', None]"
    using m[of "''app''"] m[of "''tier''"] m[of "''owner''"] m[of "''zone''"]
    by (simp add: exampleBuilder_eq exampleTemplate_def lookup_def entries_def)
  moreover have "lookup (Annotations (assemble exampleBuilder exampleTemplate)) ''note'' = Some ''once''"
    using m[of "''note''"]
    by (simp add: exampleBuilder_eq exampleTemplate_def lookup_def entries_def)
  ultimately show ?thesis
    using b d1 d2 by simp
qed

text \<open>
  C3. The job handed to the completion runner by \<open>ApplyAndCollect\<close> is named by the
  template name, a dash and the hash of (\<open>Node-Info\<close>, node, namespace): two invocations
  for the same node, with the same template name and namespace, name their jobs alike,
  whatever the other settings of the collectors and the answers of the clusters.
\<close>

theorem ApplyAndCollect_job_name_stable:
  assumes "(CallRun t1 job1, r1) \<in> set (events (ApplyAndCollect env1 cl1 jb1 nodeName w1))"
    and "(CallRun t2 job2, r2) \<in> set (events (ApplyAndCollect env2 cl2 jb2 nodeName w2))"
    and "jc_templateName jb1 = jc_templateName jb2"
    and "jc_namespace jb1 = jc_namespace jb2"
    and "ComputeHash env1 = ComputeHash env2"
  shows "Name job1 = Name job2 \<and>
         Name job1 = jc_templateName jb1 @ ''-'' @
           ComputeHash env1 (ObjectRef ''Node-Info'' nodeName (jc_namespace jb1))"
proof -
  have name: "Name job = jc_templateName jb @ ''-'' @
      ComputeHash env (ObjectRef ''Node-Info'' nodeName (jc_namespace jb))"
    if "(CallRun t job, r) \<in> set (events (ApplyAndCollect env cl jb nodeName w))"
    for t job r env and cl :: "'x Cluster" and jb w
  proof -
    from that have "GetJob env (collectJobOptions env jb nodeName) = Return job"
      by (simp add: run_event_ApplyAndCollect)
    then obtain tm where "job = assemble (applyOptions (collectJobOptions env jb nodeName)) tm"
      by (blast dest: GetJob_Return)
    then show ?thesis
      by (simp add: assemble_Name collectBuilder_eq)
  qed
  show ?thesis
    using name[OF assms(1)] name[OF assms(2)] assms(3-5) by simp
qed

theorem ApplyAndCollect_job_name_stable_witness:
  "(CallRun 0 exampleJob, None)
     \<in> set (events (ApplyAndCollect exampleEnv exampleCluster exampleCollector ''node-1'' ())) \<and>
   (CallRun 60000000000 otherJob, Some RunTimeoutError)
     \<in> set (events (ApplyAndCollect exampleEnv timeoutCluster otherCollector ''node-1'' ())) \<and>
   Name exampleJob = Name otherJob \<and> Name exampleJob = ''node-collector-5f4b8c9d7''"
proof -
  have r1: "(CallRun 0 exampleJob, None)
     \<in> set (events (ApplyAndCollect exampleEnv exampleCluster exampleCollector ''node-1'' ()))"
    by (simp add: example_run_events)
  have r2: "(CallRun 60000000000 otherJob, Some RunTimeoutError)
     \<in> set (events (ApplyAndCollect exampleEnv timeoutCluster otherCollector ''node-1'' ()))"
    by (simp add: timeout_run_events)
  have "jc_templateName exampleCollector = jc_templateName otherCollector"
    and "jc_namespace exampleCollector = jc_namespace otherCollector"
    by (simp_all add: otherCollector_def)
  from ApplyAndCollect_job_name_stable[OF r1 r2 this refl] r1 r2 show ?thesis
    by (simp add: example_simps)
qed

text \<open>
  C2. When the namespace lookup of \<open>ApplyAndCollect\<close> fails with a not-found error,
  the invocation issues exactly one namespace-create call. When it fails with any other
  error, no namespace-create call is issued and the error is dropped: the invocation goes
  on with lines 227 to 313 (RBAC objects, build, run, logs, deletions) from the state the
  lookup left, and its result is theirs.
\<close>

theorem ApplyAndCollect_namespace_lookup:
  assumes "NamespacesGet cl (jc_namespace jb) w = (Some e, w1)"
  shows "(IsNotFound e \<longrightarrow>
            length (filter isNamespacesCreate (calls (ApplyAndCollect env cl jb nodeName w))) = 1)
       \<and> (\<not> IsNotFound e \<longrightarrow>
            filter isNamespacesCreate (calls (ApplyAndCollect env cl jb nodeName w)) = [] \<and>
            outcome (ApplyAndCollect env cl jb nodeName w) =
              outcome (provisionAndRun env cl jb nodeName w1) \<and>
            events (ApplyAndCollect env cl jb nodeName w) =
              (CallNamespacesGet (jc_namespace jb), Some e) #
              events (provisionAndRun env cl jb nodeName w1))"
  using assms
  by (simp add: ApplyAndCollect_def ensureNamespace_def calls_simps action_simps
      filter_provisionAndRun split: option.splits)

theorem ApplyAndCollect_namespace_lookup_witness:
  "IsNotFound (NotFound ''trivy-temp'') \<and>
   length (filter isNamespacesCreate
     (calls (ApplyAndCollect exampleEnv notFoundCluster exampleCollector ''node-1'' ()))) = 1 \<and>
   \<not> IsNotFound (StatusError ''forbidden'') \<and>
   filter isNamespacesCreate
     (calls (ApplyAndCollect exampleEnv forbiddenCluster exampleCollector ''node-1'' ())) = [] \<and>
   outcome (ApplyAndCollect exampleEnv forbiddenCluster exampleCollector ''node-1'' ()) =
     outcome (provisionAndRun exampleEnv forbiddenCluster exampleCollector ''node-1'' ())"
proof -
  have nf: "NamespacesGet notFoundCluster (jc_namespace exampleCollector) () =
      (Some (NotFound ''trivy-temp''), ())"
    by (simp add: notFoundCluster_simps example_simps)
  have fb: "NamespacesGet forbiddenCluster (jc_namespace exampleCollector) () =
      (Some (StatusError ''forbidden''), ())"
    by (simp add: forbiddenCluster_simps)
  show ?thesis
    using ApplyAndCollect_namespace_lookup[OF nf, of exampleEnv "''node-1''"]
      ApplyAndCollect_namespace_lookup[OF fb, of exampleEnv "''node-1''"]
    by simp
qed

text \<open>
  The specification has the invocation abort with the lookup's error. On a
  cluster whose lookup answers \<open>forbidden\<close> and whose other calls succeed, the
  invocation runs to the end and returns the logs.
\<close>

theorem ApplyAndCollect_lookup_error_counterexample:
  "NamespacesGet forbiddenCluster (jc_namespace exampleCollector) () =
     (Some (StatusError ''forbidden''), ()) \<and>
   \<not> IsNotFound (StatusError ''forbidden'') \<and>
   outcome (ApplyAndCollect exampleEnv forbiddenCluster exampleCollector ''node-1'' ()) =
     Return ''node info'' \<and>
   calls (ApplyAndCollect exampleEnv forbiddenCluster exampleCollector ''node-1'' ()) =
     [ CallNamespacesGet ''trivy-temp'',
       CallClusterRolesCreate (ClusterRole ''cr''),
       CallServiceAccountsCreate ''trivy-temp'' (ServiceAccount ''sa''),
       CallClusterRoleBindingsCreate (ClusterRoleBinding ''rb''),
       CallRun 0 exampleJob,
       CallGetLogs exampleJob ''node-collector'',
       CallReadAll (ReadCloser ''pod-log''),
       CallClose (ReadCloser ''pod-log''),
       CallClusterRoleBindingsDelete ''node-collector-rb'',
       CallClusterRolesDelete ''node-collector-cr'',
       CallServiceAccountsDelete ''trivy-temp'' ''node-collector-sa'',
       CallJobsDelete ''trivy-temp'' ''node-collector-5f4b8c9d7'' ]"
  by (simp add: phase_defs action_simps calls_simps example_collect_job forbiddenCluster_simps
      example_simps errOf_def NodeCollectorName_def)

text \<open>
  C4. When the completion runner returns an error in an invocation of
  \<open>ApplyAndCollect\<close>, the invocation returns that error, wrapped by
  \<open>fmt.Errorf("running node-collector job: %w", err)\<close>, and issues no log-retrieval
  call and no deletion call. In any invocation, a deletion call is issued only if the
  runner was called and returned no error.
\<close>

theorem ApplyAndCollect_run_error:
  "((CallRun t job, Some e) \<in> set (events (ApplyAndCollect env cl jb nodeName w)) \<longrightarrow>
      outcome (ApplyAndCollect env cl jb nodeName w) =
        Failure (Wrapped ''running node-collector job'' e) \<and>
      (\<forall>c \<in> set (calls (ApplyAndCollect env cl jb nodeName w)).
         \<not> isLogRetrieval c \<and> \<not> isDelete c))
   \<and> ((\<exists>c \<in> set (calls (ApplyAndCollect env cl jb nodeName w)). isDelete c) \<longrightarrow>
        (\<exists>job'. (CallRun (jc_timeout jb) job', None)
           \<in> set (events (ApplyAndCollect env cl jb nodeName w))))"
proof (intro conjI impI)
  assume run: "(CallRun t job, Some e) \<in> set (events (ApplyAndCollect env cl jb nodeName w))"
  from run_event_ApplyAndCollect[OF run] obtain w2 where
    r: "Some e = fst (RunnerRun cl (jc_timeout jb) job w2)"
    and out: "outcome (ApplyAndCollect env cl jb nodeName w) = outcome (runAndCollect env cl jb job w2)"
    and ev: "events (ApplyAndCollect env cl jb nodeName w) =
         events (ensureNamespace cl jb w) @
         events (createRBAC env cl jb (world (ensureNamespace cl jb w))) @
         events (runAndCollect env cl jb job w2)"
    by blast
  show "outcome (ApplyAndCollect env cl jb nodeName w) =
      Failure (Wrapped ''running node-collector job'' e)"
    using r out by (simp add: outcome_runAndCollect_failed)
  have "events (runAndCollect env cl jb job w2) = [(CallRun (jc_timeout jb) job, Some e)]"
    using r by (simp add: events_runAndCollect flip: r)
  then have "calls (ApplyAndCollect env cl jb nodeName w) =
      calls (ensureNamespace cl jb w) @
      calls (createRBAC env cl jb (world (ensureNamespace cl jb w))) @ [CallRun (jc_timeout jb) job]"
    by (simp add: calls_def ev)
  then show "\<forall>c \<in> set (calls (ApplyAndCollect env cl jb nodeName w)).
      \<not> isLogRetrieval c \<and> \<not> isDelete c"
    using calls_ensureNamespace[of cl jb w]
      calls_createRBAC[of env cl jb "world (ensureNamespace cl jb w)"]
    by auto
next
  assume "\<exists>c \<in> set (calls (ApplyAndCollect env cl jb nodeName w)). isDelete c"
  then show "\<exists>job'. (CallRun (jc_timeout jb) job', None)
      \<in> set (events (ApplyAndCollect env cl jb nodeName w))"
    by (blast dest: delete_ApplyAndCollect)
qed

theorem ApplyAndCollect_run_error_witness:
  "(CallRun 60000000000 otherJob, Some RunTimeoutError)
     \<in> set (events (ApplyAndCollect exampleEnv timeoutCluster otherCollector ''node-1'' ())) \<and>
   outcome (ApplyAndCollect exampleEnv timeoutCluster otherCollector ''node-1'' ()) =
     Failure (Wrapped ''running node-collector job'' RunTimeoutError) \<and>
   filter isLogRetrieval (calls (ApplyAndCollect exampleEnv timeoutCluster otherCollector ''node-1'' ())) = [] \<and>
   filter isDelete (calls (ApplyAndCollect exampleEnv timeoutCluster otherCollector ''node-1'' ())) = [] \<and>
   CallJobsDelete ''trivy-temp'' ''node-collector-5f4b8c9d7''
     \<in> set (calls (ApplyAndCollect exampleEnv exampleCluster exampleCollector ''node-1'' ())) \<and>
   (\<exists>job'. (CallRun (jc_timeout exampleCollector) job', None)
      \<in> set (events (ApplyAndCollect exampleEnv exampleCluster exampleCollector ''node-1'' ())))"
proof -
  have run: "(CallRun 60000000000 otherJob, Some RunTimeoutError)
     \<in> set (events (ApplyAndCollect exampleEnv timeoutCluster otherCollector ''node-1'' ()))"
    by (simp add: timeout_run_events)
  have del: "CallJobsDelete ''trivy-temp'' ''node-collector-5f4b8c9d7''
     \<in> set (calls (ApplyAndCollect exampleEnv exampleCluster exampleCollector ''node-1'' ()))"
    by (simp add: calls_def example_run_events)
  then have ex: "\<exists>c \<in> set (calls (ApplyAndCollect exampleEnv exampleCluster exampleCollector ''node-1'' ())).
      isDelete c"
    by (rule rev_bexI) simp
  show ?thesis
    using run del ex
      ApplyAndCollect_run_error[of 60000000000 otherJob RunTimeoutError exampleEnv timeoutCluster
        otherCollector "''node-1''" "()"]
      ApplyAndCollect_run_error[of 0 exampleJob RunTimeoutError exampleEnv exampleCluster
        exampleCollector "''node-1''" "()"]
    by (simp add: filter_empty_conv)
qed

text \<open>
  C9. The name option \<open>Apply\<close> hands to the builder is the collector's \<open>name\<close>, and
  \<open>ComputeHash\<close> has no part in the invocation. When the build returns a job (named by
  the collector's \<open>name\<close>, or by the template when that is empty), \<open>Apply\<close> issues
  exactly one call, the submission of that job, and returns the handle the submission
  answered, or its error. When the build fails or panics, \<open>Apply\<close> issues no call and
  returns the failure. No invocation issues a run or wait, a deletion or a log retrieval.
\<close>

theorem Apply_submission:
  "b_name (applyOptions (applyJobOptions jb nodeName)) = jc_name jb
   \<and> Apply (env\<lparr>ComputeHash := h\<rparr>) cl jb nodeName w = Apply env cl jb nodeName w
   \<and> (\<forall>c \<in> set (calls (Apply env cl jb nodeName w)). isJobsCreate c)
   \<and> (\<forall>job. build env (applyOptions (applyJobOptions jb nodeName)) = Return job \<longrightarrow>
        calls (Apply env cl jb nodeName w) = [CallJobsCreate (Namespace job) job] \<and>
        (\<exists>t. yamlUnmarshal env (getTemplate env (jc_templateName jb)) = Inr t \<and>
           Name job = (if jc_name jb = [] then Name t else jc_name jb)) \<and>
        (\<forall>handle w'. JobsCreate cl (Namespace job) job w = (Inr handle, w') \<longrightarrow>
           Apply env cl jb nodeName w =
             (Return handle, w', [(CallJobsCreate (Namespace job) job, None)])) \<and>
        (\<forall>err w'. JobsCreate cl (Namespace job) job w = (Inl err, w') \<longrightarrow>
           Apply env cl jb nodeName w =
             (Failure err, w', [(CallJobsCreate (Namespace job) job, Some err)])))
   \<and> (\<forall>e. build env (applyOptions (applyJobOptions jb nodeName)) = Failure e \<longrightarrow>
        Apply env cl jb nodeName w = (Failure (Wrapped ''running node-collector job'' e), w, []))
   \<and> (\<forall>p. build env (applyOptions (applyJobOptions jb nodeName)) = Panic p \<longrightarrow>
        Apply env cl jb nodeName w = (Panic p, w, []))"
proof (intro conjI allI impI)
  show "b_name (applyOptions (applyJobOptions jb nodeName)) = jc_name jb"
    by (simp add: applyBuilder_eq)
  show "Apply (env\<lparr>ComputeHash := h\<rparr>) cl jb nodeName w = Apply env cl jb nodeName w"
    by (simp add: Apply_def GetJob_def build_def)
  show "\<forall>c \<in> set (calls (Apply env cl jb nodeName w)). isJobsCreate c"
    by (auto simp: calls_def events_Apply split: result.splits)
next
  fix job
  assume job: "build env (applyOptions (applyJobOptions jb nodeName)) = Return job"
  show "calls (Apply env cl jb nodeName w) = [CallJobsCreate (Namespace job) job]"
    using job by (simp add: calls_def events_Apply GetJob_def)
  from job have "GetJob env (applyJobOptions jb nodeName) = Return job"
    by (simp add: GetJob_def)
  from GetJob_Return[OF this] obtain t where
    t: "yamlUnmarshal env (getTemplate env (jc_templateName jb)) = Inr t"
    and asm: "job = assemble (applyOptions (applyJobOptions jb nodeName)) t"
    by (auto simp: applyBuilder_eq)
  have "Name job = (if jc_name jb = [] then Name t else jc_name jb)"
    by (simp add: asm assemble_Name applyBuilder_eq)
  then show "\<exists>t. yamlUnmarshal env (getTemplate env (jc_templateName jb)) = Inr t \<and>
      Name job = (if jc_name jb = [] then Name t else jc_name jb)"
    using t by blast
  show "Apply env cl jb nodeName w = (Return handle, w', [(CallJobsCreate (Namespace job) job, None)])"
    if "JobsCreate cl (Namespace job) job w = (Inr handle, w')" for handle w'
    using that by (simp add: Apply_Return[OF job])
  show "Apply env cl jb nodeName w = (Failure err, w', [(CallJobsCreate (Namespace job) job, Some err)])"
    if "JobsCreate cl (Namespace job) job w = (Inl err, w')" for err w'
    using that by (simp add: Apply_Return[OF job])
next
  fix e
  assume "build env (applyOptions (applyJobOptions jb nodeName)) = Failure e"
  then show "Apply env cl jb nodeName w = (Failure (Wrapped ''running node-collector job'' e), w, [])"
    by (rule Apply_not_built)
next
  fix p
  assume "build env (applyOptions (applyJobOptions jb nodeName)) = Panic p"
  then show "Apply env cl jb nodeName w = (Panic p, w, [])"
    by (rule Apply_not_built)
qed

theorem Apply_submission_witness:
  "build exampleEnv (applyOptions (applyJobOptions exampleCollector ''node-1'')) = Return appliedJob \<and>
   Name appliedJob = jc_name exampleCollector \<and>
   Apply exampleEnv exampleCluster exampleCollector ''node-1'' () =
     (Return appliedJob, (), [(CallJobsCreate ''trivy-temp'' appliedJob, None)]) \<and>
   Apply exampleEnv createFailsCluster exampleCollector ''node-1'' () =
     (Failure (StatusError ''already exists''), (),
      [(CallJobsCreate ''trivy-temp'' appliedJob, Some (StatusError ''already exists''))]) \<and>
   build decodeErrorEnv (applyOptions (applyJobOptions exampleCollector ''node-1'')) =
     Failure (DecodeError ''bad manifest'') \<and>
   Apply decodeErrorEnv exampleCluster exampleCollector ''node-1'' () =
     (Failure (Wrapped ''running node-collector job'' (DecodeError ''bad manifest'')), (), [])"
proof -
  have c1: "JobsCreate exampleCluster (Namespace appliedJob) appliedJob () = (Inr appliedJob, ())"
    by (simp add: exampleCluster_simps)
  have c2: "JobsCreate createFailsCluster (Namespace appliedJob) appliedJob () =
      (Inl (StatusError ''already exists''), ())"
    by (simp add: createFailsCluster_def)
  show ?thesis
    using example_apply_build decodeError_apply_build c1 c2
      Apply_submission[where jb = exampleCollector and nodeName = "''node-1''" and env = exampleEnv
        and h = "\<lambda>ref. []" and cl = exampleCluster and w = "()"]
      Apply_submission[where jb = exampleCollector and nodeName = "''node-1''" and env = exampleEnv
        and h = "\<lambda>ref. []" and cl = createFailsCluster and w = "()"]
      Apply_submission[where jb = exampleCollector and nodeName = "''node-1''" and env = decodeErrorEnv
        and h = "\<lambda>ref. []" and cl = exampleCluster and w = "()"]
    by (simp add: appliedJob_simps exampleCollector_simps)
qed

text \<open>
  The specification has every invocation submit exactly one job. With a template that
  does not decode, \<open>Apply\<close> returns at lines 341 to 343, before the submission of line
  345: no call is issued.
\<close>

theorem Apply_no_submission_counterexample:
  "calls (Apply decodeErrorEnv exampleCluster exampleCollector ''node-1'' ()) = [] \<and>
   length (filter isJobsCreate
     (calls (Apply decodeErrorEnv exampleCluster exampleCollector ''node-1'' ()))) = 0 \<and>
   outcome (Apply decodeErrorEnv exampleCluster exampleCollector ''node-1'' ()) =
     Failure (Wrapped ''running node-collector job'' (DecodeError ''bad manifest''))"
  by (simp add: calls_def events_Apply outcome_Apply GetJob_def decodeError_apply_build)

text \<open>
  C10. The job \<open>ApplyAndCollect\<close> hands to the runner has the node selector
  \<open>kubernetes.io/hostname = node\<close>, whatever the collector's \<open>useNodeSelector\<close>: its
  builder has the flag set. The builder of \<open>Apply\<close> has the collector's flag, and the job
  \<open>Apply\<close> submits has that node selector when the flag is set and the template's node
  selector when it is not.
\<close>

theorem node_selector_binding:
  "((CallRun t job, r) \<in> set (events (ApplyAndCollect env cl jb nodeName w)) \<longrightarrow>
      NodeSelector (podOf job) = Some [(LabelHostname, nodeName)])
   \<and> b_useNodeSelector (applyOptions (collectJobOptions env jb nodeName))
   \<and> b_useNodeSelector (applyOptions (applyJobOptions jb nodeName)) = jc_useNodeSelector jb
   \<and> ((CallJobsCreate ns job', r') \<in> set (events (Apply env cl' jb nodeName w')) \<longrightarrow>
        (\<exists>tm. yamlUnmarshal env (getTemplate env (jc_templateName jb)) = Inr tm \<and>
           NodeSelector (podOf job') =
             (if jc_useNodeSelector jb then Some [(LabelHostname, nodeName)]
              else NodeSelector (podOf tm))))"
proof (intro conjI impI)
  assume "(CallRun t job, r) \<in> set (events (ApplyAndCollect env cl jb nodeName w))"
  then have "GetJob env (collectJobOptions env jb nodeName) = Return job"
    by (simp add: run_event_ApplyAndCollect)
  then obtain tm where "job = assemble (applyOptions (collectJobOptions env jb nodeName)) tm"
    by (blast dest: GetJob_Return)
  then show "NodeSelector (podOf job) = Some [(LabelHostname, nodeName)]"
    by (simp add: assemble_NodeSelector collectBuilder_eq)
next
  show "b_useNodeSelector (applyOptions (collectJobOptions env jb nodeName))"
    by (simp add: collectBuilder_eq)
  show "b_useNodeSelector (applyOptions (applyJobOptions jb nodeName)) = jc_useNodeSelector jb"
    by (simp add: applyBuilder_eq)
next
  assume "(CallJobsCreate ns job', r') \<in> set (events (Apply env cl' jb nodeName w'))"
  then have "GetJob env (applyJobOptions jb nodeName) = Return job'"
    by (auto simp: events_Apply split: result.splits)
  from GetJob_Return[OF this] obtain tm where
    "yamlUnmarshal env (getTemplate env (jc_templateName jb)) = Inr tm"
    and "job' = assemble (applyOptions (applyJobOptions jb nodeName)) tm"
    by (auto simp: applyBuilder_eq)
  then show "\<exists>tm. yamlUnmarshal env (getTemplate env (jc_templateName jb)) = Inr tm \<and>
           NodeSelector (podOf job') =
             (if jc_useNodeSelector jb then Some [(LabelHostname, nodeName)]
              else NodeSelector (podOf tm))"
    by (auto simp: assemble_NodeSelector applyBuilder_eq)
qed

theorem node_selector_binding_witness:
  "(CallRun 0 exampleJob, None)
     \<in> set (events (ApplyAndCollect exampleEnv exampleCluster exampleCollector ''node-1'' ())) \<and>
   jc_useNodeSelector exampleCollector = False \<and>
   NodeSelector (podOf exampleJob) = Some [(''kubernetes.io/hostname'', ''node-1'')] \<and>
   (CallJobsCreate ''trivy-temp'' appliedJob, None)
     \<in> set (events (Apply exampleEnv exampleCluster exampleCollector ''node-1'' ())) \<and>
   NodeSelector (podOf appliedJob) = NodeSelector (podOf exampleTemplate)"
proof -
  have run: "(CallRun 0 exampleJob, None)
     \<in> set (events (ApplyAndCollect exampleEnv exampleCluster exampleCollector ''node-1'' ()))"
    by (simp add: example_run_events)
  have sub: "(CallJobsCreate ''trivy-temp'' appliedJob, None)
     \<in> set (events (Apply exampleEnv exampleCluster exampleCollector ''node-1'' ()))"
    by (simp add: example_apply_events)
  show ?thesis
    using run sub
      node_selector_binding[of 0 exampleJob None exampleEnv exampleCluster exampleCollector
        "''node-1''" "()" "''trivy-temp''" appliedJob None exampleCluster "()"]
    by (simp add: exampleCollector_simps LabelHostname_def exampleEnv_def)
qed

text \<open>
  C7. For a positive timeout below \<open>2\<^sup>2\<^sup>4\<close> seconds (16777216 s, about 194 days) the
  active deadline of the built job is the timeout in whole seconds, the rest dropped. For
  any positive timeout it is \<open>int64(timeout.Seconds())\<close>, the float64 number of seconds
  with its fraction dropped, which for an int64 duration is the whole seconds or one
  second more. With a timeout that is zero or negative the field is the template's.
\<close>

theorem build_active_deadline:
  assumes "yamlUnmarshal env (getTemplate env (b_template b)) = Inr t"
    and "build env b = Return j"
  shows "(0 < b_timeout b \<and> b_timeout b < 2 ^ 24 * 1000000000 \<longrightarrow>
            ActiveDeadlineSeconds (Spec j) = Some (b_timeout b div 1000000000))
       \<and> (0 < b_timeout b \<longrightarrow>
            ActiveDeadlineSeconds (Spec j) = Some (int64_of_float64 (Seconds (b_timeout b))))
       \<and> (0 < b_timeout b \<and> b_timeout b < 2 ^ 63 \<longrightarrow>
            (\<exists>s. ActiveDeadlineSeconds (Spec j) = Some s \<and>
               b_timeout b div 1000000000 \<le> s \<and> s \<le> b_timeout b div 1000000000 + 1))
       \<and> (b_timeout b \<le> 0 \<longrightarrow>
            ActiveDeadlineSeconds (Spec j) = ActiveDeadlineSeconds (Spec t))"
proof -
  have j: "j = assemble b t"
    using assms by (simp add: build_eq split: if_splits)
  show ?thesis
    using Seconds_within_one[of "b_timeout b"]
    by (simp add: j assemble_ActiveDeadlineSeconds Seconds_truncates)
qed

theorem build_active_deadline_witness:
  "0 < b_timeout timedBuilder \<and> b_timeout timedBuilder < 2 ^ 24 * 1000000000 \<and>
   (\<exists>j. build exampleEnv timedBuilder = Return j \<and> ActiveDeadlineSeconds (Spec j) = Some 90) \<and>
   b_timeout exampleBuilder \<le> 0 \<and>
   (\<exists>j. build exampleEnv exampleBuilder = Return j \<and>
      ActiveDeadlineSeconds (Spec j) = ActiveDeadlineSeconds (Spec exampleTemplate))"
proof -
  have t: "b_timeout timedBuilder = 90500000000"
    by (simp add: timedBuilder_def applyOptions_def zeroJobBuilder_def option_defs)
  have b1: "build exampleEnv timedBuilder = Return (assemble timedBuilder exampleTemplate)"
    and b2: "build exampleEnv exampleBuilder = Return (assemble exampleBuilder exampleTemplate)"
    by (simp_all add: build_eq example_unmarshal example_containers)
  show ?thesis
    using build_active_deadline[OF example_unmarshal b1] build_active_deadline[OF example_unmarshal b2]
      b1 b2
    by (simp add: t exampleBuilder_eq)
qed

text \<open>
  The specification has the whole seconds for every positive timeout. A timeout
  of 16777216.999999999 seconds has 16777216 whole seconds, but its float64 number of
  seconds is 16777217, the nearest float64 to the sum, and so is the active deadline.
\<close>

theorem build_active_deadline_counterexample:
  "0 < b_timeout longBuilder \<and> b_timeout longBuilder div 1000000000 = 16777216 \<and>
   build exampleEnv longBuilder = Return longJob \<and>
   ActiveDeadlineSeconds (Spec longJob) = Some 16777217"
proof -
  have b: "longBuilder = zeroJobBuilder\<lparr>b_template := ''node-collector'', b_timeout := 16777216999999999\<rparr>"
    by (simp add: longBuilder_def applyOptions_def option_defs)
  have "build exampleEnv longBuilder = Return longJob"
    by (simp add: b build_def step_defs zeroJobBuilder_def exampleEnv_def Seconds_long longJob_def
        exampleTemplate_def)
  then show ?thesis
    by (simp add: b zeroJobBuilder_def longJob_def)
qed

end
